theory Spec2Isabelle
  imports Complex_Main "HOL-Library.Multiset"
begin

section \<open>Domain entities (backend/domain/entities.py)\<close>

text \<open>
  The enumerations of the domain layer. A \<open>datetime\<close> is only ever stored and copied, so
  it is an integer clock reading; \<open>datetime.utcnow()\<close> is an argument of every function
  that calls it.
\<close>

datatype DeviceType =
    NIGHT_LED | GARAGE_DOOR | MOTION_SENSOR | RAIN_SENSOR | CLOTHES_SERVO
  | WATER_PUMP | FLAME_SENSOR | SMOKE_SENSOR | DHT_SENSOR

datatype DeviceState = ON | OFF | OPEN | CLOSED | DETECTED | NOT_DETECTED

datatype RuntimeMode = AUTO | ARDUINO | SIMULATION

type_synonym datetime = int

text \<open>
  The exceptions the modelled code raises or catches; \<open>RuntimeError\<close> and
  \<open>SerialException\<close> carry their message. \<open>RetryError\<close> is what tenacity raises when
  it gives up.
\<close>

datatype py_error =
    ValueError
  | AttributeError
  | RuntimeError string
  | SerialException string
  | RetryError

record DeviceCommand =
  device_type :: DeviceType
  state :: DeviceState
  timestamp :: datetime
  manual_override :: bool

record AutoModeCommand =
  enabled :: bool
  am_timestamp :: datetime

text \<open>
  \<open>DeviceCommand.to_arduino_format\<close>: the dictionary \<open>command_map\<close> has one entry per
  actuator, a letter and the test of the state against that actuator's own active state;
  a device type that is not a key raises \<open>ValueError\<close>.
\<close>

fun command_map :: "DeviceState \<Rightarrow> DeviceType \<Rightarrow> (char \<times> bool) option" where
  "command_map s NIGHT_LED = Some (CHR ''L'', s = ON)"
| "command_map s GARAGE_DOOR = Some (CHR ''G'', s = OPEN)"
| "command_map s WATER_PUMP = Some (CHR ''P'', s = ON)"
| "command_map s CLOTHES_SERVO = Some (CHR ''C'', s = OPEN)"
| "command_map s _ = None"

definition to_arduino_format :: "DeviceCommand \<Rightarrow> py_error + string" where
  "to_arduino_format c =
     (case command_map (state c) (device_type c) of
        None \<Rightarrow> Inl ValueError
      | Some (letter, is_active) \<Rightarrow> Inr [letter, if is_active then CHR ''1'' else CHR ''0''])"

definition auto_to_arduino_format :: "AutoModeCommand \<Rightarrow> string" where
  "auto_to_arduino_format c = [CHR ''A'', if enabled c then CHR ''1'' else CHR ''0'']"

text \<open>
  \<open>TelemetrySnapshot\<close>. Python floats are modelled by the real numbers they denote
  (no infinities, no NaN). The dataclass constructor runs \<open>__post_init__\<close>, which raises
  \<open>ValueError\<close> outside the three ranges; \<open>mk_TelemetrySnapshot\<close> is that constructor.
\<close>

record TelemetrySnapshot =
  ts_timestamp :: datetime
  ldr_value :: int
  garage_distance :: int
  motion_detected :: bool
  rain_detected :: bool
  water_level :: int
  soil_moisture :: int
  pump_active :: bool
  flame_detected :: bool
  smoke_level :: int
  temperature :: real
  humidity :: real
  auto_mode :: bool
  runtime_mode :: RuntimeMode

definition post_init :: "TelemetrySnapshot \<Rightarrow> py_error + TelemetrySnapshot" where
  "post_init t =
     (if \<not> (0 \<le> ldr_value t \<and> ldr_value t \<le> 1023) then Inl ValueError
      else if \<not> (0 \<le> humidity t \<and> humidity t \<le> 100) then Inl ValueError
      else if temperature t < - 40 \<or> temperature t > 80 then Inl ValueError
      else Inr t)"

definition mk_TelemetrySnapshot ::
  "datetime \<Rightarrow> int \<Rightarrow> int \<Rightarrow> bool \<Rightarrow> bool \<Rightarrow> int \<Rightarrow> int \<Rightarrow> bool \<Rightarrow> bool \<Rightarrow> int \<Rightarrow> real \<Rightarrow> real
     \<Rightarrow> bool \<Rightarrow> RuntimeMode \<Rightarrow> py_error + TelemetrySnapshot" where
  "mk_TelemetrySnapshot ts ldr gd mo ra wl so pu fl sm te hu am rm =
     post_init \<lparr> ts_timestamp = ts, ldr_value = ldr, garage_distance = gd,
                 motion_detected = mo, rain_detected = ra, water_level = wl,
                 soil_moisture = so, pump_active = pu, flame_detected = fl,
                 smoke_level = sm, temperature = te, humidity = hu,
                 auto_mode = am, runtime_mode = rm \<rparr>"

text \<open>
  \<open>TelemetrySnapshot.evaluate_auto_mode_logic\<close>; \<open>now\<close> is the value of
  \<open>datetime.utcnow()\<close> read once at the start.
\<close>

definition evaluate_auto_mode_logic :: "datetime \<Rightarrow> TelemetrySnapshot \<Rightarrow> DeviceCommand list" where
  "evaluate_auto_mode_logic now t =
     (if \<not> auto_mode t then []
      else
        (let led_state = (if ldr_value t > 500 then ON else OFF);
             commands = [] @ [\<lparr> device_type = NIGHT_LED, state = led_state,
                                timestamp = now, manual_override = False \<rparr>];
             garage_state = (if 5 \<le> garage_distance t \<and> garage_distance t \<le> 15
                             then OPEN else CLOSED);
             commands = commands @ [\<lparr> device_type = GARAGE_DOOR, state = garage_state,
                                      timestamp = now, manual_override = False \<rparr>];
             clothes_state = (if rain_detected t then CLOSED else OPEN);
             commands = commands @ [\<lparr> device_type = CLOTHES_SERVO, state = clothes_state,
                                      timestamp = now, manual_override = False \<rparr>];
             pump_state = (if (1 \<le> water_level t \<and> water_level t \<le> 5) \<and> soil_moisture t > 900
                           then ON else OFF);
             commands = commands @ [\<lparr> device_type = WATER_PUMP, state = pump_state,
                                      timestamp = now, manual_override = False \<rparr>]
         in commands))"

definition has_emergency :: "TelemetrySnapshot \<Rightarrow> bool" where
  "has_emergency t \<longleftrightarrow> flame_detected t \<or> smoke_level t > 150"

text \<open>A snapshot used to evaluate the functions at concrete inputs.\<close>

definition sample_snapshot :: TelemetrySnapshot where
  "sample_snapshot =
     \<lparr> ts_timestamp = 0, ldr_value = 501, garage_distance = 15,
       motion_detected = False, rain_detected = True, water_level = 3,
       soil_moisture = 950, pump_active = False, flame_detected = False,
       smoke_level = 45, temperature = 24.5, humidity = 55,
       auto_mode = True, runtime_mode = SIMULATION \<rparr>"

section \<open>The simulated backend (backend/infrastructure/simulation_controller.py)\<close>

text \<open>
  \<open>SimulatedEnvironment\<close>, with the values \<open>__init__\<close> assigns. The attributes whose names
  are also fields of \<open>TelemetrySnapshot\<close> carry the prefix \<open>env_\<close>.
\<close>

record SimulatedEnvironment =
  ambient_light :: real
  env_garage_distance :: real
  has_motion :: bool
  is_raining :: bool
  env_water_level :: real
  env_soil_moisture :: real
  flame_present :: bool
  env_smoke_level :: real
  env_temperature :: real
  env_humidity :: real
  night_led_on :: bool
  garage_open :: bool
  clothes_servo_open :: bool
  pump_on :: bool
  env_auto_mode :: bool

definition init_env :: SimulatedEnvironment where
  "init_env =
     \<lparr> ambient_light = 300, env_garage_distance = 50, has_motion = False,
       is_raining = False, env_water_level = 3, env_soil_moisture = 600,
       flame_present = False, env_smoke_level = 50, env_temperature = 24,
       env_humidity = 45, night_led_on = False, garage_open = False,
       clothes_servo_open = True, pump_on = False, env_auto_mode = True \<rparr>"

text \<open>
  The seven numbers one call of \<open>update\<close> draws from the random generator, in the order
  of the calls: \<open>uniform(-20, 20)\<close>, \<open>uniform(-2, 2)\<close>, three times \<open>random()\<close>,
  \<open>uniform(-0.5, 0.5)\<close> and \<open>uniform(-1, 1)\<close>. No function below relies on a draw
  being inside its interval.
\<close>

record draws =
  u_light :: real
  u_garage :: real
  r_motion :: real
  r_rain :: real
  r_fire :: real
  u_temp :: real
  u_hum :: real

text \<open>
  \<open>SimulatedEnvironment.update\<close>, one definition per commented block of the method, in
  the order of the source; \<open>update\<close> runs them one after the other.
\<close>

definition update_light :: "draws \<Rightarrow> SimulatedEnvironment \<Rightarrow> SimulatedEnvironment" where
  "update_light d e =
     e\<lparr>ambient_light := max 0 (min 1023 (ambient_light e + u_light d))\<rparr>"

definition update_garage :: "draws \<Rightarrow> SimulatedEnvironment \<Rightarrow> SimulatedEnvironment" where
  "update_garage d e =
     e\<lparr>env_garage_distance := max 1 (min 100 (env_garage_distance e + u_garage d))\<rparr>"

definition update_motion :: "draws \<Rightarrow> SimulatedEnvironment \<Rightarrow> SimulatedEnvironment" where
  "update_motion d e = e\<lparr>has_motion := r_motion d < 0.05\<rparr>"

definition update_rain :: "draws \<Rightarrow> SimulatedEnvironment \<Rightarrow> SimulatedEnvironment" where
  "update_rain d e = (if r_rain d < 0.02 then e\<lparr>is_raining := \<not> is_raining e\<rparr> else e)"

definition update_water :: "real \<Rightarrow> SimulatedEnvironment \<Rightarrow> SimulatedEnvironment" where
  "update_water delta_time e =
     e\<lparr>env_water_level :=
         max 0 (min 20 (if pump_on e then env_water_level e - 0.1 * delta_time
                        else env_water_level e + 0.05 * delta_time))\<rparr>"

definition update_soil :: "real \<Rightarrow> SimulatedEnvironment \<Rightarrow> SimulatedEnvironment" where
  "update_soil delta_time e =
     e\<lparr>env_soil_moisture :=
         max 0 (min 1023 (if pump_on e then env_soil_moisture e - 10 * delta_time
                          else env_soil_moisture e + 5 * delta_time))\<rparr>"

definition update_fire :: "real \<Rightarrow> draws \<Rightarrow> SimulatedEnvironment \<Rightarrow> SimulatedEnvironment" where
  "update_fire delta_time d e =
     (if r_fire d < 0.001
      then e\<lparr>flame_present := True, env_smoke_level := 200\<rparr>
      else e\<lparr>flame_present := False,
              env_smoke_level := max 20 (env_smoke_level e - 5 * delta_time)\<rparr>)"

definition update_temperature :: "draws \<Rightarrow> SimulatedEnvironment \<Rightarrow> SimulatedEnvironment" where
  "update_temperature d e =
     e\<lparr>env_temperature := max (- 10) (min 40 (env_temperature e + u_temp d))\<rparr>"

definition update_humidity :: "draws \<Rightarrow> SimulatedEnvironment \<Rightarrow> SimulatedEnvironment" where
  "update_humidity d e =
     e\<lparr>env_humidity := max 0 (min 100 (env_humidity e + u_hum d))\<rparr>"

definition update :: "real \<Rightarrow> draws \<Rightarrow> SimulatedEnvironment \<Rightarrow> SimulatedEnvironment" where
  "update delta_time d e =
     update_humidity d
       (update_temperature d
         (update_fire delta_time d
           (update_soil delta_time
             (update_water delta_time
               (update_rain d
                 (update_motion d
                   (update_garage d
                     (update_light d e))))))))"

text \<open>
  \<open>apply_auto_mode_logic\<close>: the four assignments read sensor attributes only, which none
  of them writes.
\<close>

definition apply_auto_mode_logic :: "SimulatedEnvironment \<Rightarrow> SimulatedEnvironment" where
  "apply_auto_mode_logic e =
     (if \<not> env_auto_mode e then e
      else e\<lparr>night_led_on := ambient_light e > 500,
              garage_open := (5 \<le> env_garage_distance e \<and> env_garage_distance e \<le> 15),
              clothes_servo_open := \<not> is_raining e,
              pump_on := ((1 \<le> env_water_level e \<and> env_water_level e \<le> 5)
                           \<and> env_soil_moisture e > 900)\<rparr>)"

text \<open>
  \<open>SimulatedHardwareController.send_command\<close> on the controller's environment: the
  returned boolean and the environment after the call. The \<open>if\<close>/\<open>elif\<close> chain has no
  \<open>else\<close>, so any other device type falls through to \<open>return True\<close>.
\<close>

definition sim_send_command ::
  "SimulatedEnvironment \<Rightarrow> DeviceCommand \<Rightarrow> bool \<times> SimulatedEnvironment" where
  "sim_send_command e command =
     (if env_auto_mode e \<and> \<not> manual_override command then (False, e)
      else
        (let e' =
           (if device_type command = NIGHT_LED
              then e\<lparr>night_led_on := (state command = ON)\<rparr>
            else if device_type command = GARAGE_DOOR
              then e\<lparr>garage_open := (state command = OPEN)\<rparr>
            else if device_type command = CLOTHES_SERVO
              then e\<lparr>clothes_servo_open := (state command = OPEN)\<rparr>
            else if device_type command = WATER_PUMP
              then e\<lparr>pump_on := (state command = ON)\<rparr>
            else e)
         in (True, e')))"

definition sim_set_auto_mode ::
  "SimulatedEnvironment \<Rightarrow> AutoModeCommand \<Rightarrow> bool \<times> SimulatedEnvironment" where
  "sim_set_auto_mode e command = (True, e\<lparr>env_auto_mode := enabled command\<rparr>)"

text \<open>
  \<open>int(x)\<close> of a float truncates towards zero; \<open>round(x, 1)\<close> rounds to one decimal
  place, a tie going to the even digit. \<open>get_telemetry\<close> catches \<open>ValueError\<close> only and
  returns \<open>None\<close> for it.
\<close>

definition py_int :: "real \<Rightarrow> int" where
  "py_int x = (if 0 \<le> x then \<lfloor>x\<rfloor> else \<lceil>x\<rceil>)"

definition round_half_even :: "real \<Rightarrow> int" where
  "round_half_even y =
     (let f = \<lfloor>y\<rfloor>; r = y - of_int f
      in if r < 1 / 2 then f else if 1 / 2 < r then f + 1
         else if even f then f else f + 1)"

definition py_round1 :: "real \<Rightarrow> real" where
  "py_round1 x = of_int (round_half_even (x * 10)) / 10"

definition sim_get_telemetry ::
  "datetime \<Rightarrow> SimulatedEnvironment \<Rightarrow> py_error + TelemetrySnapshot option" where
  "sim_get_telemetry now e =
     (case mk_TelemetrySnapshot now
             (py_int (ambient_light e)) (py_int (env_garage_distance e))
             (has_motion e) (is_raining e)
             (py_int (env_water_level e)) (py_int (env_soil_moisture e))
             (pump_on e) (flame_present e) (py_int (env_smoke_level e))
             (py_round1 (env_temperature e)) (py_round1 (env_humidity e))
             (env_auto_mode e) SIMULATION of
        Inr t \<Rightarrow> Inr (Some t)
      | Inl ValueError \<Rightarrow> Inr None
      | Inl err \<Rightarrow> Inl err)"

text \<open>
  What can happen to the environment: the simulation loop calls \<open>update\<close> and then
  \<open>apply_auto_mode_logic\<close>; request handlers call \<open>send_command\<close> and \<open>set_auto_mode\<close>.
  \<open>run\<close> applies a sequence of such events, in any interleaving.
\<close>

datatype event =
    Update real draws
  | ApplyAutoModeLogic
  | SendCommand DeviceCommand
  | SetAutoMode AutoModeCommand

fun step :: "SimulatedEnvironment \<Rightarrow> event \<Rightarrow> SimulatedEnvironment" where
  "step e (Update delta_time d) = update delta_time d e"
| "step e ApplyAutoModeLogic = apply_auto_mode_logic e"
| "step e (SendCommand c) = snd (sim_send_command e c)"
| "step e (SetAutoMode c) = snd (sim_set_auto_mode e c)"

definition run :: "SimulatedEnvironment \<Rightarrow> event list \<Rightarrow> SimulatedEnvironment" where
  "run e evs = foldl step e evs"

definition in_range :: "SimulatedEnvironment \<Rightarrow> bool" where
  "in_range e \<longleftrightarrow>
     0 \<le> ambient_light e \<and> ambient_light e \<le> 1023 \<and>
     0 \<le> env_humidity e \<and> env_humidity e \<le> 100 \<and>
     - 40 \<le> env_temperature e \<and> env_temperature e \<le> 80"

definition actuators :: "SimulatedEnvironment \<Rightarrow> bool \<times> bool \<times> bool \<times> bool" where
  "actuators e = (night_led_on e, garage_open e, clothes_servo_open e, pump_on e)"

text \<open>
  \<open>SimulatedHardwareController\<close>: its environment and the attributes \<open>initialize\<close>
  sets. \<open>initialize\<close> cannot fail.
\<close>

record SimulatedHardwareController =
  sim_env :: SimulatedEnvironment
  sim_running :: bool
  sim_last_update_time :: datetime

definition new_SimulatedHardwareController :: "datetime \<Rightarrow> SimulatedHardwareController" where
  "new_SimulatedHardwareController now =
     \<lparr> sim_env = init_env, sim_running = False, sim_last_update_time = now \<rparr>"

definition sim_initialize ::
  "datetime \<Rightarrow> SimulatedHardwareController \<Rightarrow> SimulatedHardwareController" where
  "sim_initialize now c = c\<lparr>sim_running := True, sim_last_update_time := now\<rparr>"

section \<open>The serial backend (backend/infrastructure/serial_controller.py)\<close>

text \<open>
  What \<open>initialize\<close> sees of the machine: the ports \<open>list_ports.comports()\<close> lists, and for
  each port name and baud rate whether the \<open>try\<close> block (constructing \<open>Serial\<close>, which
  opens the port, and flushing its buffers) goes through (\<open>None\<close>) or raises an exception.
  The serial library raises \<open>SerialException\<close> for a port it cannot open or configure and
  \<open>ValueError\<close> for a parameter out of range, such as a negative baud rate; the model
  leaves open which exception a machine raises.
\<close>

record port_info =
  device :: string
  description :: string

record serial_world =
  comports :: "port_info list"
  open_fails :: "string \<Rightarrow> int \<Rightarrow> py_error option"

record SerialHardwareController =
  port :: "string option"
  baud_rate :: int
  serial_is_open :: bool
  running :: bool
  latest_telemetry :: "TelemetrySnapshot option"

definition new_SerialHardwareController :: "string option \<Rightarrow> int \<Rightarrow> SerialHardwareController" where
  "new_SerialHardwareController p b =
     \<lparr> port = p, baud_rate = b, serial_is_open = False, running = False,
       latest_telemetry = None \<rparr>"

text \<open>\<open>str.lower\<close> on ASCII text, the operator \<open>in\<close> on strings, and the truth value of an optional string.\<close>

definition lower_char :: "char \<Rightarrow> char" where
  "lower_char c =
     (let n = (of_char c :: nat) in if 65 \<le> n \<and> n \<le> 90 then char_of (n + 32) else c)"

definition lower :: "string \<Rightarrow> string" where
  "lower s = map lower_char s"

fun starts_with :: "string \<Rightarrow> string \<Rightarrow> bool" where
  "starts_with [] s = True"
| "starts_with (k # ks) [] = False"
| "starts_with (k # ks) (c # cs) = (k = c \<and> starts_with ks cs)"

fun contains :: "string \<Rightarrow> string \<Rightarrow> bool" where
  "contains k [] = starts_with k []"
| "contains k (c # cs) = (starts_with k (c # cs) \<or> contains k cs)"

definition truthy :: "string option \<Rightarrow> bool" where
  "truthy p = (case p of None \<Rightarrow> False | Some s \<Rightarrow> s \<noteq> [])"

fun detect_arduino_port :: "port_info list \<Rightarrow> string option" where
  "detect_arduino_port [] = None"
| "detect_arduino_port (p # ps) =
     (if list_ex (\<lambda>keyword. contains keyword (lower (description p)))
           [''arduino'', ''ch340'', ''ch341'']
      then Some (device p) else detect_arduino_port ps)"

definition serial_initialize ::
  "serial_world \<Rightarrow> SerialHardwareController \<Rightarrow> py_error + SerialHardwareController" where
  "serial_initialize w c0 =
     (let c = (if \<not> truthy (port c0) then c0\<lparr>port := detect_arduino_port (comports w)\<rparr> else c0)
      in if \<not> truthy (port c)
         then Inl (RuntimeError ''Arduino not detected. Ensure device is connected via USB.'')
         else
           (case open_fails w (the (port c)) (baud_rate c) of
              None \<Rightarrow> Inr (c\<lparr>serial_is_open := True, running := True\<rparr>)
            | Some (SerialException e) \<Rightarrow>
                Inl (RuntimeError (''Failed to open serial port '' @ the (port c) @ '': '' @ e))
            | Some err \<Rightarrow> Inl err))"

subsection \<open>Decoding a telemetry line\<close>

text \<open>
  A line is the list of its characters; the reader loop decodes the bytes as ASCII, and
  the character classes below are Python's \<open>\s\<close> and \<open>\d\<close> on code points below 256.

  The eleven patterns of \<open>_parse_telemetry\<close> have three shapes: a label, \<open>\s*\<close>, a group
  of one or more characters of a class, and possibly a unit after it; a label followed by
  a group of alternative words; a group of alternative words alone. Each piece is a
  function on the text that is left. Python's matcher backtracks, but in these patterns
  a greedy repetition is always followed by something that none of its own characters
  can start (a digit, a dot or white space never starts \<open>cm\<close>, \<open>C\<close>, \<open>%\<close>, a digit or a
  word), so giving characters back never helps and the greedy reading below is the
  match Python finds. \<open>re_search\<close> is \<open>re.search\<close>: the match at the leftmost position
  that has one, and of that match the text of group 1.
\<close>

definition is_space :: "char \<Rightarrow> bool" where
  "is_space c \<longleftrightarrow>
     c \<in> set [CHR 0x09, CHR 0x0A, CHR 0x0B, CHR 0x0C, CHR 0x0D, CHR 0x1C, CHR 0x1D,
               CHR 0x1E, CHR 0x1F, CHR 0x20, CHR 0x85, CHR 0xA0]"

definition is_digit :: "char \<Rightarrow> bool" where
  "is_digit c \<longleftrightarrow> c \<in> set ''0123456789''"

definition is_num :: "char \<Rightarrow> bool" where
  "is_num c \<longleftrightarrow> is_digit c \<or> c = CHR ''.''"

fun lit :: "string \<Rightarrow> string \<Rightarrow> string option" where
  "lit [] s = Some s"
| "lit (k # ks) [] = None"
| "lit (k # ks) (c # cs) = (if k = c then lit ks cs else None)"

definition spaces :: "string \<Rightarrow> string" where
  "spaces s = dropWhile is_space s"

definition group1 :: "(char \<Rightarrow> bool) \<Rightarrow> string \<Rightarrow> (string \<times> string) option" where
  "group1 cls s =
     (if takeWhile cls s = [] then None else Some (takeWhile cls s, dropWhile cls s))"

fun alt :: "string list \<Rightarrow> string \<Rightarrow> string option" where
  "alt [] s = None"
| "alt (a # as) s = (if lit a s \<noteq> None then Some a else alt as s)"

text \<open>
  \<open>label\s*(cls+)\<close>, then \<open>\s*unit\<close> when \<open>sp\<close> and \<open>unit\<close> alone otherwise; an empty unit
  is no unit.
\<close>

definition re_labelled ::
  "string \<Rightarrow> (char \<Rightarrow> bool) \<Rightarrow> bool \<Rightarrow> string \<Rightarrow> string \<Rightarrow> string option" where
  "re_labelled label cls sp unit s =
     (case lit label s of
        None \<Rightarrow> None
      | Some r \<Rightarrow>
          (case group1 cls (spaces r) of
             None \<Rightarrow> None
           | Some (g, r') \<Rightarrow>
               (case lit unit (if sp then spaces r' else r') of
                  None \<Rightarrow> None
                | Some r'' \<Rightarrow> Some g)))"

text \<open>\<open>label(a|b)\<close>, with \<open>\s*\<close> after the label when \<open>sp\<close>.\<close>

definition re_words :: "string \<Rightarrow> bool \<Rightarrow> string list \<Rightarrow> string \<Rightarrow> string option" where
  "re_words label sp words s =
     (case lit label s of
        None \<Rightarrow> None
      | Some r \<Rightarrow> alt words (if sp then spaces r else r))"

definition ldr_re :: "string \<Rightarrow> string option" where
  "ldr_re = re_labelled ''LDR:'' is_digit False []"

definition garage_re :: "string \<Rightarrow> string option" where
  "garage_re = re_labelled ''Garage Dist:'' is_digit True ''cm''"

definition motion_re :: "string \<Rightarrow> string option" where
  "motion_re = re_words [] False [''Motion!'', ''No Motion'']"

definition rain_re :: "string \<Rightarrow> string option" where
  "rain_re = re_words [] False [''Rain!'', ''No Rain'']"

definition water_re :: "string \<Rightarrow> string option" where
  "water_re = re_labelled ''Water Lvl:'' is_digit True ''cm''"

definition soil_re :: "string \<Rightarrow> string option" where
  "soil_re = re_labelled ''Soil:'' is_digit False []"

definition pump_re :: "string \<Rightarrow> string option" where
  "pump_re = re_words ''Pump '' False [''ON'', ''OFF'']"

definition flame_re :: "string \<Rightarrow> string option" where
  "flame_re = re_words ''Flame:'' True [''YES'', ''NO'']"

definition smoke_re :: "string \<Rightarrow> string option" where
  "smoke_re = re_labelled ''Smoke:'' is_digit False []"

definition temp_re :: "string \<Rightarrow> string option" where
  "temp_re = re_labelled ''Temp:'' is_num True ''C''"

definition hum_re :: "string \<Rightarrow> string option" where
  "hum_re = re_labelled ''Hum:'' is_num False ''%''"

fun re_search :: "(string \<Rightarrow> 'a option) \<Rightarrow> string \<Rightarrow> 'a option" where
  "re_search m [] = m []"
| "re_search m (c # cs) = (case m (c # cs) of Some g \<Rightarrow> Some g | None \<Rightarrow> re_search m cs)"

text \<open>
  \<open>int(s)\<close> on a group of digits, and \<open>float(s)\<close> on a group of digits and dots: a float
  needs at least one digit and at most one dot, anything else raises \<open>ValueError\<close>.
  Recent Python versions refuse to convert more than 4300 digits and raise \<open>ValueError\<close>,
  which the handler of \<open>_parse_telemetry\<close> turns into \<open>None\<close>; \<open>int_of_digits\<close> has no
  such limit.
\<close>

definition digit_val :: "char \<Rightarrow> int" where
  "digit_val c = int (of_char c) - 48"

definition int_of_digits :: "string \<Rightarrow> int" where
  "int_of_digits ds = foldl (\<lambda>a d. 10 * a + digit_val d) 0 ds"

definition py_float :: "string \<Rightarrow> py_error + real" where
  "py_float s =
     (let ip = takeWhile is_digit s; rest = dropWhile is_digit s
      in case rest of
           [] \<Rightarrow> if ip = [] then Inl ValueError else Inr (of_int (int_of_digits ip))
         | c # fp \<Rightarrow>
             if c = CHR ''.'' \<and> list_all is_digit fp \<and> (ip \<noteq> [] \<or> fp \<noteq> [])
             then Inr (of_int (int_of_digits ip) + of_int (int_of_digits fp) / 10 ^ length fp)
             else Inl ValueError)"

text \<open>
  \<open>_parse_telemetry\<close>. \<open>from_matches\<close> is the code after the eleven searches, inside the
  \<open>try\<close>: the \<open>all\<close> test, then the keyword arguments of the constructor in their order
  (the two \<open>float\<close> calls can raise), then the constructor with its validation.
  \<open>parse_telemetry\<close> adds the handler, which turns \<open>ValueError\<close> and \<open>AttributeError\<close>
  into \<open>None\<close>.
\<close>

definition from_matches ::
  "datetime \<Rightarrow> string option \<Rightarrow> string option \<Rightarrow> string option \<Rightarrow> string option
     \<Rightarrow> string option \<Rightarrow> string option \<Rightarrow> string option \<Rightarrow> string option
     \<Rightarrow> string option \<Rightarrow> string option \<Rightarrow> string option
     \<Rightarrow> py_error + TelemetrySnapshot option" where
  "from_matches now ldr_match garage_match motion_match rain_match water_match soil_match
       pump_match flame_match smoke_match temp_match hum_match =
     (if \<not> list_all (\<lambda>m. m \<noteq> None)
            [ldr_match, garage_match, motion_match, rain_match, water_match, soil_match,
             pump_match, flame_match, smoke_match, temp_match, hum_match]
      then Inr None
      else
        (case py_float (the temp_match) of
           Inl e \<Rightarrow> Inl e
         | Inr te \<Rightarrow>
             (case py_float (the hum_match) of
                Inl e \<Rightarrow> Inl e
              | Inr hu \<Rightarrow>
                  (case mk_TelemetrySnapshot now
                          (int_of_digits (the ldr_match))
                          (int_of_digits (the garage_match))
                          (the motion_match = ''Motion!'')
                          (the rain_match = ''Rain!'')
                          (int_of_digits (the water_match))
                          (int_of_digits (the soil_match))
                          (the pump_match = ''ON'')
                          (the flame_match = ''YES'')
                          (int_of_digits (the smoke_match))
                          te hu True ARDUINO of
                     Inl e \<Rightarrow> Inl e
                   | Inr t \<Rightarrow> Inr (Some t)))))"

definition parse_telemetry :: "datetime \<Rightarrow> string \<Rightarrow> py_error + TelemetrySnapshot option" where
  "parse_telemetry now line =
     (case from_matches now
             (re_search ldr_re line) (re_search garage_re line) (re_search motion_re line)
             (re_search rain_re line) (re_search water_re line) (re_search soil_re line)
             (re_search pump_re line) (re_search flame_re line) (re_search smoke_re line)
             (re_search temp_re line) (re_search hum_re line) of
        Inl ValueError \<Rightarrow> Inr None
      | Inl AttributeError \<Rightarrow> Inr None
      | Inl e \<Rightarrow> Inl e
      | Inr r \<Rightarrow> Inr r)"

text \<open>
  The format the docstring of \<open>_parse_telemetry\<close> expects: eleven fields separated by
  \<open>" | "\<close>, each a label, a value and possibly a unit. A field is its kind and the text of
  its value; \<open>valid_value\<close> says which texts a kind admits (digits for the integer fields,
  digits and dots for the two floats, one of two words for the four flags); \<open>line_of\<close>
  writes a list of fields as a line.
\<close>

datatype kind =
    K_ldr | K_garage | K_motion | K_rain | K_water | K_soil | K_pump | K_flame | K_smoke
  | K_temp | K_hum

fun re_of :: "kind \<Rightarrow> string \<Rightarrow> string option" where
  "re_of K_ldr = ldr_re"
| "re_of K_garage = garage_re"
| "re_of K_motion = motion_re"
| "re_of K_rain = rain_re"
| "re_of K_water = water_re"
| "re_of K_soil = soil_re"
| "re_of K_pump = pump_re"
| "re_of K_flame = flame_re"
| "re_of K_smoke = smoke_re"
| "re_of K_temp = temp_re"
| "re_of K_hum = hum_re"

fun prefix_of :: "kind \<Rightarrow> string" where
  "prefix_of K_ldr = ''LDR: ''"
| "prefix_of K_garage = ''Garage Dist: ''"
| "prefix_of K_motion = []"
| "prefix_of K_rain = []"
| "prefix_of K_water = ''Water Lvl: ''"
| "prefix_of K_soil = ''Soil: ''"
| "prefix_of K_pump = ''Pump ''"
| "prefix_of K_flame = ''Flame: ''"
| "prefix_of K_smoke = ''Smoke: ''"
| "prefix_of K_temp = ''Temp: ''"
| "prefix_of K_hum = ''Hum: ''"

fun suffix_of :: "kind \<Rightarrow> string" where
  "suffix_of K_garage = '' cm''"
| "suffix_of K_water = '' cm''"
| "suffix_of K_temp = '' C''"
| "suffix_of K_hum = ''%''"
| "suffix_of _ = []"

fun valid_value :: "kind \<Rightarrow> string \<Rightarrow> bool" where
  "valid_value K_motion v = (v = ''Motion!'' \<or> v = ''No Motion'')"
| "valid_value K_rain v = (v = ''Rain!'' \<or> v = ''No Rain'')"
| "valid_value K_pump v = (v = ''ON'' \<or> v = ''OFF'')"
| "valid_value K_flame v = (v = ''YES'' \<or> v = ''NO'')"
| "valid_value K_temp v = (v \<noteq> [] \<and> list_all is_num v)"
| "valid_value K_hum v = (v \<noteq> [] \<and> list_all is_num v)"
| "valid_value _ v = (v \<noteq> [] \<and> list_all is_digit v)"

definition render :: "kind \<times> string \<Rightarrow> string" where
  "render f = prefix_of (fst f) @ snd f @ suffix_of (fst f)"

fun line_of :: "(kind \<times> string) list \<Rightarrow> string" where
  "line_of [] = []"
| "line_of [f] = render f"
| "line_of (f # g # fs) = render f @ '' | '' @ line_of (g # fs)"

definition valid_fields :: "(kind \<times> string) list \<Rightarrow> bool" where
  "valid_fields fs \<longleftrightarrow> list_all (\<lambda>f. valid_value (fst f) (snd f)) fs \<and> distinct (map fst fs)"

definition sample_fields :: "(kind \<times> string) list" where
  "sample_fields =
     [(K_ldr, ''300''), (K_garage, ''50''), (K_motion, ''No Motion''), (K_rain, ''Rain!''),
      (K_water, ''3''), (K_soil, ''600''), (K_pump, ''OFF''), (K_flame, ''NO''),
      (K_smoke, ''50''), (K_temp, ''24.5''), (K_hum, ''45.0'')]"

definition shuffled_fields :: "(kind \<times> string) list" where
  "shuffled_fields =
     [(K_hum, ''45.0''), (K_rain, ''Rain!''), (K_pump, ''OFF''), (K_temp, ''24.5''),
      (K_soil, ''600''), (K_ldr, ''300''), (K_smoke, ''50''), (K_flame, ''NO''),
      (K_water, ''3''), (K_motion, ''No Motion''), (K_garage, ''50'')]"

text \<open>A line in the format of the docstring, and the same fields in another order.\<close>

definition sample_line :: string where
  "sample_line = ''LDR: 300 | Garage Dist: 50 cm | No Motion | Rain! | Water Lvl: 3 cm | Soil: 600 | Pump OFF | Flame: NO | Smoke: 50 | Temp: 24.5 C | Hum: 45.0%''"

definition shuffled_line :: string where
  "shuffled_line = ''Hum: 45.0% | Rain! | Pump OFF | Temp: 24.5 C | Soil: 600 | LDR: 300 | Smoke: 50 | Flame: NO | Water Lvl: 3 cm | No Motion | Garage Dist: 50 cm''"

text \<open>
  What may follow a field in such a line: the end of the line or a separator. Two lines
  that do not decode, one without its humidity field and one whose temperature is not a
  float, and the snapshot \<open>sample_line\<close> decodes to at clock reading 7.
\<close>

definition boundary :: "string \<Rightarrow> bool" where
  "boundary r \<longleftrightarrow> r = [] \<or> (\<exists>m. r = '' | '' @ m)"

definition no_hum_line :: string where
  "no_hum_line = ''LDR: 300 | Garage Dist: 50 cm | No Motion | Rain! | Water Lvl: 3 cm | Soil: 600 | Pump OFF | Flame: NO | Smoke: 50 | Temp: 24.5 C''"

definition bad_temp_line :: string where
  "bad_temp_line = ''LDR: 300 | Garage Dist: 50 cm | No Motion | Rain! | Water Lvl: 3 cm | Soil: 600 | Pump OFF | Flame: NO | Smoke: 50 | Temp: 24.5.1 C | Hum: 45.0%''"

definition sample_decoded :: TelemetrySnapshot where
  "sample_decoded =
     \<lparr> ts_timestamp = 7, ldr_value = 300, garage_distance = 50,
       motion_detected = False, rain_detected = True, water_level = 3,
       soil_moisture = 600, pump_active = False, flame_detected = False,
       smoke_level = 50, temperature = 24.5, humidity = 45,
       auto_mode = True, runtime_mode = ARDUINO \<rparr>"

text \<open>
  The open serial port as the command paths use it: \<open>write_fails k\<close> says whether the
  \<open>k\<close>-th write and flush on the port goes through (\<open>None\<close>) or raises a
  \<open>SerialException\<close>; \<open>writes\<close> counts the writes attempted, \<open>sent\<close> collects the lines
  written, and \<open>slept\<close> collects the seconds of every sleep between attempts.
\<close>

record link =
  write_fails :: "nat \<Rightarrow> string option"
  writes :: nat
  sent :: "string list"
  slept :: "nat list"

definition send_raw :: "string \<Rightarrow> link \<Rightarrow> (py_error + unit) \<times> link" where
  "send_raw command l =
     (case write_fails l (writes l) of
        None \<Rightarrow> (Inr (), l\<lparr>writes := writes l + 1, sent := sent l @ [command @ [CHR 0x0A]]\<rparr>)
      | Some m \<Rightarrow> (Inl (SerialException m), l\<lparr>writes := writes l + 1\<rparr>))"

text \<open>
  The body of \<open>send_command\<close>, one attempt: \<open>False\<close> without a connection, the
  \<open>ValueError\<close> of \<open>to_arduino_format\<close> uncaught, a \<open>SerialException\<close> logged and raised
  again.
\<close>

definition send_command_body ::
  "SerialHardwareController \<Rightarrow> DeviceCommand \<Rightarrow> link \<Rightarrow> (py_error + bool) \<times> link" where
  "send_command_body c command l =
     (if \<not> serial_is_open c then (Inr False, l)
      else
        (case to_arduino_format command of
           Inl e \<Rightarrow> (Inl e, l)
         | Inr arduino_cmd \<Rightarrow>
             (case send_raw arduino_cmd l of
                (Inr u, l') \<Rightarrow> (Inr True, l')
              | (Inl e, l') \<Rightarrow> (Inl e, l'))))"

text \<open>
  The decorator \<open>@retry(stop=stop_after_attempt(3), wait=wait_exponential(multiplier=1,
  min=1, max=10), retry=retry_if_exception_type(SerialException))\<close> of the tenacity
  library: call the body; a result or any other exception goes to the caller as it is;
  on a \<open>SerialException\<close> stop with \<open>RetryError\<close> once the attempt number has reached the
  ceiling, otherwise sleep \<open>wait attempt_number\<close> seconds and call the body again.
  \<open>wait_exponential\<close> is \<open>multiplier * 2 ** (attempt_number - 1)\<close> clamped between \<open>min\<close>
  and \<open>max\<close>.
\<close>

definition wait_exponential :: "nat \<Rightarrow> nat \<Rightarrow> nat \<Rightarrow> nat \<Rightarrow> nat" where
  "wait_exponential multiplier mn mx attempt_number =
     max (max 0 mn) (min (multiplier * 2 ^ (attempt_number - 1)) mx)"

function retrying ::
  "nat \<Rightarrow> (nat \<Rightarrow> nat) \<Rightarrow> (link \<Rightarrow> (py_error + 'a) \<times> link) \<Rightarrow> nat \<Rightarrow> link
     \<Rightarrow> (py_error + 'a) \<times> link" where
  "retrying stop_after wait body attempt_number l =
     (case body l of
        (Inl (SerialException m), l') \<Rightarrow>
          if attempt_number \<ge> stop_after then (Inl RetryError, l')
          else retrying stop_after wait body (attempt_number + 1)
                 (l'\<lparr>slept := slept l' @ [wait attempt_number]\<rparr>)
      | (r, l') \<Rightarrow> (r, l'))"
  by pat_completeness auto
termination
  by (relation "measure (\<lambda>(stop_after, wait, body, attempt_number, l). stop_after - attempt_number)")
     auto

declare retrying.simps [simp del]

definition serial_send_command ::
  "SerialHardwareController \<Rightarrow> DeviceCommand \<Rightarrow> link \<Rightarrow> (py_error + bool) \<times> link" where
  "serial_send_command c command l =
     retrying 3 (wait_exponential 1 1 10) (send_command_body c command) 1 l"


text \<open>
  A connected controller, a port whose first write fails and whose later writes go
  through, and a port on which every write fails.
\<close>

definition connected :: SerialHardwareController where
  "connected = \<lparr> port = Some ''COM3'', baud_rate = 9600, serial_is_open = True,
                 running = True, latest_telemetry = None \<rparr>"

definition flaky_link :: link where
  "flaky_link = \<lparr> write_fails = (\<lambda>k. if k = 0 then Some ''write timeout'' else None),
                  writes = 0, sent = [], slept = [] \<rparr>"




text \<open>Two commands for the evaluations below.\<close>

definition led_on :: DeviceCommand where
  "led_on = \<lparr> device_type = NIGHT_LED, state = ON, timestamp = 0, manual_override = False \<rparr>"


section \<open>The controller factory (backend/infrastructure/hardware_factory.py)\<close>

datatype HardwareController =
    Serial SerialHardwareController
  | Simulated SimulatedHardwareController

fun controller_runtime_mode :: "HardwareController \<Rightarrow> RuntimeMode" where
  "controller_runtime_mode (Serial c) = ARDUINO"
| "controller_runtime_mode (Simulated c) = SIMULATION"

text \<open>
  \<open>HardwareControllerFactory.create\<close>. Only the AUTO branch has a handler, and it catches
  \<open>RuntimeError\<close> alone; any other exception of \<open>initialize\<close> leaves \<open>create\<close> in every
  mode. The final \<open>else\<close> of the source is for a value outside the enumeration.
\<close>

fun create ::
  "RuntimeMode \<Rightarrow> string option \<Rightarrow> int \<Rightarrow> serial_world \<Rightarrow> datetime \<Rightarrow> py_error + HardwareController" where
  "create ARDUINO serial_port baud w now =
     (case serial_initialize w (new_SerialHardwareController serial_port baud) of
        Inl e \<Rightarrow> Inl e
      | Inr controller \<Rightarrow> Inr (Serial controller))"
| "create SIMULATION serial_port baud w now =
     Inr (Simulated (sim_initialize now (new_SimulatedHardwareController now)))"
| "create AUTO serial_port baud w now =
     (case serial_initialize w (new_SerialHardwareController serial_port baud) of
        Inr controller \<Rightarrow> Inr (Serial controller)
      | Inl (RuntimeError e) \<Rightarrow>
          Inr (Simulated (sim_initialize now (new_SimulatedHardwareController now)))
      | Inl e \<Rightarrow> Inl e)"

text \<open>
  Three machines: one with no serial port at all, one whose only matching port cannot be
  opened, and one with an Arduino that opens. On each of them the serial library refuses
  a negative baud rate with \<open>ValueError\<close> before it touches the port.
\<close>

definition pyserial_baud_check :: "py_error option \<Rightarrow> string \<Rightarrow> int \<Rightarrow> py_error option" where
  "pyserial_baud_check outcome p b = (if b < 0 then Some ValueError else outcome)"

definition no_ports :: serial_world where
  "no_ports = \<lparr> comports = [], open_fails = pyserial_baud_check None \<rparr>"

definition busy_port :: serial_world where
  "busy_port =
     \<lparr> comports = [\<lparr> device = ''COM3'', description = ''USB-SERIAL CH340 (COM3)'' \<rparr>],
       open_fails = pyserial_baud_check (Some (SerialException ''Access is denied.'')) \<rparr>"

definition arduino_on_com3 :: serial_world where
  "arduino_on_com3 =
     \<lparr> comports = [\<lparr> device = ''COM1'', description = ''Communications Port'' \<rparr>,
                   \<lparr> device = ''COM3'', description = ''Arduino Uno (COM3)'' \<rparr>],
       open_fails = pyserial_baud_check None \<rparr>"

text \<open>Draws far outside their intervals, to exercise the clamping.\<close>

definition wild_draws :: draws where
  "wild_draws = \<lparr> u_light = 5000, u_garage = - 300, r_motion = 0.01, r_rain = 0.01,
                   r_fire = 0.0005, u_temp = - 900, u_hum = 700 \<rparr>"

section \<open>The control law\<close>

text \<open>
  C1: a snapshot with \<open>auto_mode = False\<close> gives the empty list; a snapshot with
  \<open>auto_mode = True\<close> gives exactly four commands, for the night LED, the garage door, the
  clothes servo and the water pump in this order, every one with \<open>manual_override = False\<close>,
  where the LED is ON iff \<open>ldr_value > 500\<close>, the garage is OPEN iff
  \<open>5 \<le> garage_distance \<le> 15\<close>, the clothes cover is CLOSED iff \<open>rain_detected\<close>, and the
  pump is ON iff \<open>1 \<le> water_level \<le> 5\<close> and \<open>soil_moisture > 900\<close>; every other case gives
  OFF, CLOSED, OPEN and OFF respectively.
\<close>

theorem evaluate_auto_mode_logic_thresholds:
  "(\<not> auto_mode t \<longrightarrow> evaluate_auto_mode_logic now t = []) \<and>
   (auto_mode t \<longrightarrow>
      length (evaluate_auto_mode_logic now t) = 4 \<and>
      map device_type (evaluate_auto_mode_logic now t)
        = [NIGHT_LED, GARAGE_DOOR, CLOTHES_SERVO, WATER_PUMP] \<and>
      (\<forall>c \<in> set (evaluate_auto_mode_logic now t). \<not> manual_override c \<and> timestamp c = now) \<and>
      state (evaluate_auto_mode_logic now t ! 0) = (if ldr_value t > 500 then ON else OFF) \<and>
      state (evaluate_auto_mode_logic now t ! 1)
        = (if 5 \<le> garage_distance t \<and> garage_distance t \<le> 15 then OPEN else CLOSED) \<and>
      state (evaluate_auto_mode_logic now t ! 2) = (if rain_detected t then CLOSED else OPEN) \<and>
      state (evaluate_auto_mode_logic now t ! 3)
        = (if 1 \<le> water_level t \<and> water_level t \<le> 5 \<and> soil_moisture t > 900 then ON else OFF))"
  by (simp add: evaluate_auto_mode_logic_def Let_def)

theorem evaluate_auto_mode_logic_thresholds_witness:
  "evaluate_auto_mode_logic 7 (sample_snapshot\<lparr>auto_mode := False\<rparr>) = [] \<and>
   map state (evaluate_auto_mode_logic 7 sample_snapshot) = [ON, OPEN, CLOSED, ON] \<and>
   map state (evaluate_auto_mode_logic 7
      (sample_snapshot\<lparr>ldr_value := 500, garage_distance := 16, soil_moisture := 850\<rparr>))
     = [OFF, CLOSED, CLOSED, OFF] \<and>
   map state (evaluate_auto_mode_logic 7
      (sample_snapshot\<lparr>garage_distance := 5\<rparr>)) = [ON, OPEN, CLOSED, ON] \<and>
   map state (evaluate_auto_mode_logic 7
      (sample_snapshot\<lparr>garage_distance := 4\<rparr>)) = [ON, CLOSED, CLOSED, ON]"
  using evaluate_auto_mode_logic_thresholds [of "sample_snapshot\<lparr>auto_mode := False\<rparr>" 7]
    evaluate_auto_mode_logic_thresholds [of sample_snapshot 7]
  by (simp add: evaluate_auto_mode_logic_def sample_snapshot_def Let_def)

section \<open>The command encoding\<close>

text \<open>
  C2, as stated, at the command (night LED, OPEN): the claim wants the digit 1 for the
  state open on every actuator letter; the code compares the state of a night-LED
  command with ON only and encodes 0.
\<close>

theorem to_arduino_format_open_led_counterexample:
  "to_arduino_format \<lparr> device_type = NIGHT_LED, state = OPEN, timestamp = 0,
                        manual_override = True \<rparr> = Inr ''L0'' \<and>
   to_arduino_format \<lparr> device_type = GARAGE_DOOR, state = ON, timestamp = 0,
                        manual_override = True \<rparr> = Inr ''G0''"
  by (simp add: to_arduino_format_def)

text \<open>
  C2, amended: encoding a DeviceCommand gives the two characters letter and digit, with
  the letter L, G, P or C of the night LED, garage door, water pump or clothes servo, and
  the digit 1 exactly when the state is that actuator's own active state (ON for the
  night LED and the water pump, OPEN for the garage door and the clothes servo) and 0
  for every other state; a command for any other device type fails with ValueError; an
  AutoModeCommand encodes to A1 when enabled and A0 when disabled.
\<close>

theorem to_arduino_format_table:
  "to_arduino_format c =
     (if device_type c = NIGHT_LED
        then Inr [CHR ''L'', if state c = ON then CHR ''1'' else CHR ''0'']
      else if device_type c = GARAGE_DOOR
        then Inr [CHR ''G'', if state c = OPEN then CHR ''1'' else CHR ''0'']
      else if device_type c = WATER_PUMP
        then Inr [CHR ''P'', if state c = ON then CHR ''1'' else CHR ''0'']
      else if device_type c = CLOTHES_SERVO
        then Inr [CHR ''C'', if state c = OPEN then CHR ''1'' else CHR ''0'']
      else Inl ValueError) \<and>
   auto_to_arduino_format a = (if enabled a then ''A1'' else ''A0'')"
  by (cases "device_type c") (simp_all add: to_arduino_format_def auto_to_arduino_format_def)

theorem to_arduino_format_table_witness:
  "map (\<lambda>(d, s). to_arduino_format
          \<lparr> device_type = d, state = s, timestamp = 0, manual_override = False \<rparr>)
       [(NIGHT_LED, ON), (NIGHT_LED, OFF), (GARAGE_DOOR, OPEN), (GARAGE_DOOR, CLOSED),
        (WATER_PUMP, ON), (WATER_PUMP, OFF), (CLOTHES_SERVO, OPEN), (CLOTHES_SERVO, CLOSED),
        (MOTION_SENSOR, ON), (DHT_SENSOR, DETECTED)]
     = [Inr ''L1'', Inr ''L0'', Inr ''G1'', Inr ''G0'', Inr ''P1'', Inr ''P0'',
        Inr ''C1'', Inr ''C0'', Inl ValueError, Inl ValueError] \<and>
   auto_to_arduino_format \<lparr> enabled = True, am_timestamp = 0 \<rparr> = ''A1'' \<and>
   auto_to_arduino_format \<lparr> enabled = False, am_timestamp = 0 \<rparr> = ''A0''"
  using to_arduino_format_table
          [of "\<lparr> device_type = NIGHT_LED, state = ON, timestamp = 0, manual_override = False \<rparr>"
              "\<lparr> enabled = True, am_timestamp = 0 \<rparr>"]
  by (simp add: to_arduino_format_def auto_to_arduino_format_def)

section \<open>Commands on the simulated backend\<close>

text \<open>
  C6, as stated, at two commands with the manual-override flag that the manual-control
  route accepts: (night LED, OPEN) on a lit LED returns True and switches the LED off,
  and (garage door, ON) on an open garage returns True and closes it, so the actuator
  does not match the commanded state.
\<close>

theorem sim_send_command_mismatch_counterexample:
  "fst (sim_send_command (init_env\<lparr>night_led_on := True\<rparr>)
     \<lparr> device_type = NIGHT_LED, state = OPEN, timestamp = 0, manual_override = True \<rparr>) = True \<and>
   night_led_on (snd (sim_send_command (init_env\<lparr>night_led_on := True\<rparr>)
     \<lparr> device_type = NIGHT_LED, state = OPEN, timestamp = 0, manual_override = True \<rparr>)) = False \<and>
   fst (sim_send_command (init_env\<lparr>garage_open := True\<rparr>)
     \<lparr> device_type = GARAGE_DOOR, state = ON, timestamp = 0, manual_override = True \<rparr>) = True \<and>
   garage_open (snd (sim_send_command (init_env\<lparr>garage_open := True\<rparr>)
     \<lparr> device_type = GARAGE_DOOR, state = ON, timestamp = 0, manual_override = True \<rparr>)) = False"
  by (simp add: sim_send_command_def init_env_def)

text \<open>
  C6, amended: while the environment's auto-mode flag is set, a command without the
  manual-override flag returns False and leaves the whole environment, so all four
  actuator states, as it was; a command with the manual-override flag, or any command
  while auto mode is off, returns True, and when it addresses an actuator that
  actuator's flag afterwards says whether the commanded state is the actuator's own
  active state: the night LED and the pump are on iff the state is ON, the garage and
  the clothes servo are open iff the state is OPEN. So ON and OFF sent to the LED or the
  pump, and OPEN and CLOSED sent to the garage or the clothes servo, set the actuator to
  the commanded state, and every other state switches it to off or closed.
\<close>

theorem sim_send_command_gate:
  "(env_auto_mode e \<and> \<not> manual_override c \<longrightarrow>
       fst (sim_send_command e c) = False \<and> snd (sim_send_command e c) = e \<and>
       actuators (snd (sim_send_command e c)) = actuators e) \<and>
   (manual_override c \<or> \<not> env_auto_mode e \<longrightarrow>
       fst (sim_send_command e c) = True \<and>
       (device_type c = NIGHT_LED \<longrightarrow>
          night_led_on (snd (sim_send_command e c)) = (state c = ON)) \<and>
       (device_type c = GARAGE_DOOR \<longrightarrow>
          garage_open (snd (sim_send_command e c)) = (state c = OPEN)) \<and>
       (device_type c = CLOTHES_SERVO \<longrightarrow>
          clothes_servo_open (snd (sim_send_command e c)) = (state c = OPEN)) \<and>
       (device_type c = WATER_PUMP \<longrightarrow>
          pump_on (snd (sim_send_command e c)) = (state c = ON)))"
  by (simp add: sim_send_command_def)

theorem sim_send_command_gate_witness:
  "sim_send_command init_env
     \<lparr> device_type = NIGHT_LED, state = ON, timestamp = 0, manual_override = False \<rparr>
     = (False, init_env) \<and>
   fst (sim_send_command init_env
     \<lparr> device_type = NIGHT_LED, state = ON, timestamp = 0, manual_override = True \<rparr>) \<and>
   night_led_on (snd (sim_send_command init_env
     \<lparr> device_type = NIGHT_LED, state = ON, timestamp = 0, manual_override = True \<rparr>)) \<and>
   pump_on (snd (sim_send_command (init_env\<lparr>env_auto_mode := False\<rparr>)
     \<lparr> device_type = WATER_PUMP, state = ON, timestamp = 0, manual_override = False \<rparr>))"
  using sim_send_command_gate
          [of init_env
              "\<lparr> device_type = NIGHT_LED, state = ON, timestamp = 0, manual_override = False \<rparr>"]
        sim_send_command_gate
          [of init_env
              "\<lparr> device_type = NIGHT_LED, state = ON, timestamp = 0, manual_override = True \<rparr>"]
  by (simp add: sim_send_command_def init_env_def Let_def)

text \<open>
  C10: a command whose device type is one of the five sensor-only identifiers, sent
  while auto mode is off or with the manual-override flag, returns True and leaves every
  field of the environment, the four actuator states included, unchanged.
\<close>

theorem sim_send_command_sensor:
  assumes "device_type c \<in> {MOTION_SENSOR, RAIN_SENSOR, FLAME_SENSOR, SMOKE_SENSOR, DHT_SENSOR}"
    and "\<not> env_auto_mode e \<or> manual_override c"
  shows "sim_send_command e c = (True, e)"
proof -
  have "device_type c \<noteq> NIGHT_LED" "device_type c \<noteq> GARAGE_DOOR"
    "device_type c \<noteq> CLOTHES_SERVO" "device_type c \<noteq> WATER_PUMP"
    using assms(1) by fastforce+
  with assms(2) show ?thesis
    by (simp add: sim_send_command_def)
qed

theorem sim_send_command_sensor_witness:
  "sim_send_command init_env
     \<lparr> device_type = DHT_SENSOR, state = ON, timestamp = 0, manual_override = True \<rparr>
     = (True, init_env) \<and>
   sim_send_command (init_env\<lparr>env_auto_mode := False\<rparr>)
     \<lparr> device_type = MOTION_SENSOR, state = DETECTED, timestamp = 0, manual_override = False \<rparr>
     = (True, init_env\<lparr>env_auto_mode := False\<rparr>)"
  using sim_send_command_sensor
          [of "\<lparr> device_type = DHT_SENSOR, state = ON, timestamp = 0, manual_override = True \<rparr>"
              init_env]
        sim_send_command_sensor
          [of "\<lparr> device_type = MOTION_SENSOR, state = DETECTED, timestamp = 0,
                  manual_override = False \<rparr>"
              "init_env\<lparr>env_auto_mode := False\<rparr>"]
  by simp

section \<open>Ranges of the simulated environment\<close>

lemma update_light_range:
  "0 \<le> ambient_light (update_light d e) \<and> ambient_light (update_light d e) \<le> 1023"
  by (simp add: update_light_def)

lemma update_temperature_range:
  "- 10 \<le> env_temperature (update_temperature d e) \<and> env_temperature (update_temperature d e) \<le> 40"
  by (simp add: update_temperature_def)

lemma update_humidity_range:
  "0 \<le> env_humidity (update_humidity d e) \<and> env_humidity (update_humidity d e) \<le> 100"
  by (simp add: update_humidity_def)

lemma update_keeps_light:
  "ambient_light (update_garage d e) = ambient_light e"
  "ambient_light (update_motion d e) = ambient_light e"
  "ambient_light (update_rain d e) = ambient_light e"
  "ambient_light (update_water dt e) = ambient_light e"
  "ambient_light (update_soil dt e) = ambient_light e"
  "ambient_light (update_fire dt d e) = ambient_light e"
  "ambient_light (update_temperature d e) = ambient_light e"
  "ambient_light (update_humidity d e) = ambient_light e"
  by (simp_all add: update_garage_def update_motion_def update_rain_def update_water_def
        update_soil_def update_fire_def update_temperature_def update_humidity_def)

lemma update_keeps_temperature:
  "env_temperature (update_humidity d e) = env_temperature e"
  by (simp add: update_humidity_def)

lemma update_in_range: "in_range (update delta_time d e)"
  using update_light_range [of d e]
    update_temperature_range
      [of d "update_fire delta_time d (update_soil delta_time (update_water delta_time
         (update_rain d (update_motion d (update_garage d (update_light d e))))))"]
    update_humidity_range
      [of d "update_temperature d (update_fire delta_time d (update_soil delta_time
         (update_water delta_time (update_rain d (update_motion d (update_garage d
         (update_light d e)))))))"]
  by (simp add: in_range_def update_def update_keeps_light update_keeps_temperature)

lemma apply_auto_mode_logic_in_range: "in_range e \<Longrightarrow> in_range (apply_auto_mode_logic e)"
  by (simp add: apply_auto_mode_logic_def in_range_def)

lemma sim_send_command_in_range: "in_range e \<Longrightarrow> in_range (snd (sim_send_command e c))"
  by (simp add: sim_send_command_def in_range_def)

lemma sim_set_auto_mode_in_range: "in_range e \<Longrightarrow> in_range (snd (sim_set_auto_mode e c))"
  by (simp add: sim_set_auto_mode_def in_range_def)

lemma step_in_range: "in_range e \<Longrightarrow> in_range (step e ev)"
  by (cases ev)
     (simp_all add: update_in_range apply_auto_mode_logic_in_range
        sim_send_command_in_range sim_set_auto_mode_in_range)

lemma run_in_range: "in_range e \<Longrightarrow> in_range (run e evs)"
  unfolding run_def
  by (induction evs arbitrary: e) (simp_all add: step_in_range)

lemma init_env_in_range: "in_range init_env"
  by (simp add: init_env_def in_range_def)

lemma py_int_bounds: "0 \<le> x \<Longrightarrow> x \<le> 1023 \<Longrightarrow> 0 \<le> py_int x \<and> py_int x \<le> 1023"
  by (simp add: py_int_def floor_le_iff)

lemma round_half_even_bounds:
  assumes "of_int a \<le> y" and "y \<le> of_int b"
  shows "a \<le> round_half_even y \<and> round_half_even y \<le> b"
proof -
  have lo: "a \<le> \<lfloor>y\<rfloor>" using assms(1) by (simp add: le_floor_iff)
  have hi: "\<lfloor>y\<rfloor> \<le> b" using assms(2) by (simp add: floor_le_iff)
  have strict: "\<lfloor>y\<rfloor> + 1 \<le> b" if "y - of_int \<lfloor>y\<rfloor> \<noteq> 0"
  proof -
    have "y \<noteq> of_int b" using that by auto
    with assms(2) have "y < of_int b" by simp
    then have "\<lfloor>y\<rfloor> < b" by (simp add: floor_less_iff)
    then show ?thesis by simp
  qed
  show ?thesis
    using lo hi strict
    by (auto simp add: round_half_even_def Let_def)
qed

lemma py_round1_bounds:
  assumes "of_int a \<le> x" and "x \<le> of_int b"
  shows "of_int a \<le> py_round1 x \<and> py_round1 x \<le> of_int b"
proof -
  have "of_int (a * 10) \<le> x * 10" "x * 10 \<le> of_int (b * 10)"
    using assms by simp_all
  then have "a * 10 \<le> round_half_even (x * 10) \<and> round_half_even (x * 10) \<le> b * 10"
    by (rule round_half_even_bounds)
  then have "real_of_int (a * 10) \<le> of_int (round_half_even (x * 10))"
    "real_of_int (round_half_even (x * 10)) \<le> of_int (b * 10)"
    by (simp_all only: of_int_le_iff)
  then show ?thesis
    by (simp add: py_round1_def field_simps)
qed

lemma sim_get_telemetry_in_range:
  assumes "in_range e"
  shows "\<exists>t. sim_get_telemetry now e = Inr (Some t)"
proof -
  have l: "0 \<le> py_int (ambient_light e) \<and> py_int (ambient_light e) \<le> 1023"
    using assms by (intro py_int_bounds) (simp_all add: in_range_def)
  have h: "of_int 0 \<le> py_round1 (env_humidity e) \<and> py_round1 (env_humidity e) \<le> of_int 100"
    using assms by (intro py_round1_bounds) (simp_all add: in_range_def)
  have t: "of_int (- 40) \<le> py_round1 (env_temperature e) \<and> py_round1 (env_temperature e) \<le> of_int 80"
    using assms by (intro py_round1_bounds) (simp_all add: in_range_def)
  show ?thesis
    using l h t
    by (simp add: sim_get_telemetry_def mk_TelemetrySnapshot_def post_init_def)
qed

text \<open>
  C8: every environment reached from the initial one by any sequence of updates (any
  time delta, any random draws), auto-mode-logic applications, send_command calls and
  set_auto_mode calls has its ambient light within 0..1023, its humidity within 0..100
  and its temperature within -40..80; and get_telemetry on it constructs a snapshot,
  it never returns None.
\<close>

theorem sim_reachable_in_range:
  "in_range (run init_env evs) \<and>
   (\<exists>t. sim_get_telemetry now (run init_env evs) = Inr (Some t))"
  using run_in_range [OF init_env_in_range] sim_get_telemetry_in_range by simp

theorem sim_reachable_in_range_witness:
  "in_range (run init_env [Update 1 wild_draws, ApplyAutoModeLogic]) \<and>
   (\<exists>t. sim_get_telemetry 0 (run init_env [Update 1 wild_draws, ApplyAutoModeLogic]) = Inr (Some t)) \<and>
   ambient_light (run init_env [Update 1 wild_draws, ApplyAutoModeLogic]) = 1023 \<and>
   env_temperature (run init_env [Update 1 wild_draws, ApplyAutoModeLogic]) = - 10 \<and>
   env_humidity (run init_env [Update 1 wild_draws, ApplyAutoModeLogic]) = 100"
  using sim_reachable_in_range [of "[Update 1 wild_draws, ApplyAutoModeLogic]" 0]
  by (simp add: run_def update_def update_light_def update_garage_def update_motion_def
        update_rain_def update_water_def update_soil_def update_fire_def update_temperature_def
        update_humidity_def apply_auto_mode_logic_def init_env_def wild_draws_def)

section \<open>Retries on the serial link\<close>
























lemma serial_send_command_flaky:
  "fst (serial_send_command connected led_on flaky_link) = Inr True \<and>
   writes (snd (serial_send_command connected led_on flaky_link)) = 2 \<and>
   sent (snd (serial_send_command connected led_on flaky_link)) = [''L1'' @ [CHR 0x0A]] \<and>
   slept (snd (serial_send_command connected led_on flaky_link)) = [1]"
  by code_simp





section \<open>The factory's fallback\<close>

lemma detect_none_fails:
  "\<not> truthy p \<Longrightarrow> detect_arduino_port (comports w) = None \<Longrightarrow>
   serial_initialize w (new_SerialHardwareController p b)
     = Inl (RuntimeError ''Arduino not detected. Ensure device is connected via USB.'')"
  by (simp add: serial_initialize_def new_SerialHardwareController_def truthy_def)

lemma open_serial_exception_fails:
  "truthy (Some q) \<Longrightarrow> open_fails w q b = Some (SerialException m) \<Longrightarrow>
   serial_initialize w (new_SerialHardwareController (Some q) b)
     = Inl (RuntimeError (''Failed to open serial port '' @ q @ '': '' @ m))"
  by (simp add: serial_initialize_def new_SerialHardwareController_def)

lemma open_other_exception_fails:
  "truthy (Some q) \<Longrightarrow> open_fails w q b = Some err \<Longrightarrow> \<forall>m. err \<noteq> SerialException m \<Longrightarrow>
   serial_initialize w (new_SerialHardwareController (Some q) b) = Inl err"
  by (cases err) (simp_all add: serial_initialize_def new_SerialHardwareController_def)

lemma create_auto_runtime_error:
  "serial_initialize w (new_SerialHardwareController p b) = Inl (RuntimeError m) \<Longrightarrow>
   create AUTO p b w now
     = Inr (Simulated (sim_initialize now (new_SimulatedHardwareController now)))"
  by simp

lemma create_auto_other_error:
  "serial_initialize w (new_SerialHardwareController p b) = Inl e \<Longrightarrow>
   \<forall>m. e \<noteq> RuntimeError m \<Longrightarrow> create AUTO p b w now = Inl e"
  by (cases e) simp_all

text \<open>
  C5, amended: when the initialization of the serial controller fails with RuntimeError,
  which it does when no port is configured and no listed port matches and when opening
  the port raises a SerialException, create in mode AUTO returns a controller whose
  runtime mode is SIMULATION and raises nothing. Any other exception of initialize (the
  serial library's ValueError for a parameter out of range) is not caught and leaves
  create in mode AUTO as it is. In mode ARDUINO every failure of initialize leaves
  create as the very error of initialize, with no fallback; mode SIMULATION returns the
  simulated controller whatever the serial ports are.
\<close>

theorem create_fallback:
  "(serial_initialize w (new_SerialHardwareController p b) = Inl (RuntimeError m) \<longrightarrow>
      (\<exists>c. create AUTO p b w now = Inr c \<and> controller_runtime_mode c = SIMULATION) \<and>
      create ARDUINO p b w now = Inl (RuntimeError m)) \<and>
   (\<not> truthy p \<and> detect_arduino_port (comports w) = None \<longrightarrow>
      (\<exists>c. create AUTO p b w now = Inr c \<and> controller_runtime_mode c = SIMULATION) \<and>
      (\<exists>m'. create ARDUINO p b w now = Inl (RuntimeError m'))) \<and>
   (truthy (Some q) \<and> open_fails w q b = Some (SerialException m) \<longrightarrow>
      (\<exists>c. create AUTO (Some q) b w now = Inr c \<and> controller_runtime_mode c = SIMULATION) \<and>
      (\<exists>m'. create ARDUINO (Some q) b w now = Inl (RuntimeError m'))) \<and>
   (serial_initialize w (new_SerialHardwareController p b) = Inl e \<and>
    (\<forall>m'. e \<noteq> RuntimeError m') \<longrightarrow>
      create AUTO p b w now = Inl e) \<and>
   (serial_initialize w (new_SerialHardwareController p b) = Inl e \<longrightarrow>
      create ARDUINO p b w now = Inl e) \<and>
   (\<exists>c. create SIMULATION p b w now = Inr c \<and> controller_runtime_mode c = SIMULATION)"
proof -
  have c1: "serial_initialize w (new_SerialHardwareController p b) = Inl (RuntimeError m) \<longrightarrow>
      (\<exists>c. create AUTO p b w now = Inr c \<and> controller_runtime_mode c = SIMULATION) \<and>
      create ARDUINO p b w now = Inl (RuntimeError m)"
    by simp
  have c2: "\<not> truthy p \<and> detect_arduino_port (comports w) = None \<longrightarrow>
      (\<exists>c. create AUTO p b w now = Inr c \<and> controller_runtime_mode c = SIMULATION) \<and>
      (\<exists>m'. create ARDUINO p b w now = Inl (RuntimeError m'))"
    using detect_none_fails [of p w b] by simp
  have c3: "truthy (Some q) \<and> open_fails w q b = Some (SerialException m) \<longrightarrow>
      (\<exists>c. create AUTO (Some q) b w now = Inr c \<and> controller_runtime_mode c = SIMULATION) \<and>
      (\<exists>m'. create ARDUINO (Some q) b w now = Inl (RuntimeError m'))"
    using open_serial_exception_fails [of q w b m] by simp
  have c4: "serial_initialize w (new_SerialHardwareController p b) = Inl e \<and>
    (\<forall>m'. e \<noteq> RuntimeError m') \<longrightarrow> create AUTO p b w now = Inl e"
    using create_auto_other_error [of w p b e now] by blast
  have c5: "serial_initialize w (new_SerialHardwareController p b) = Inl e \<longrightarrow>
      create ARDUINO p b w now = Inl e"
    by simp
  have c6: "\<exists>c. create SIMULATION p b w now = Inr c \<and> controller_runtime_mode c = SIMULATION"
    by simp
  show ?thesis
    by (rule conjI [OF c1 conjI [OF c2 conjI [OF c3 conjI [OF c4 conjI [OF c5 c6]]]]])
qed

lemma create_examples:
  "serial_initialize no_ports (new_SerialHardwareController None 9600)
     = Inl (RuntimeError ''Arduino not detected. Ensure device is connected via USB.'')"
  "create ARDUINO None 9600 no_ports 0
     = Inl (RuntimeError ''Arduino not detected. Ensure device is connected via USB.'')"
  "create ARDUINO None 9600 busy_port 0
     = Inl (RuntimeError ''Failed to open serial port COM3: Access is denied.'')"
  "create AUTO None 9600 no_ports 5
     = Inr (Simulated \<lparr> sim_env = init_env, sim_running = True, sim_last_update_time = 5 \<rparr>)"
  "create AUTO None 9600 busy_port 5
     = Inr (Simulated \<lparr> sim_env = init_env, sim_running = True, sim_last_update_time = 5 \<rparr>)"
  "create AUTO None 9600 arduino_on_com3 5 = Inr (Serial (connected\<lparr>running := True\<rparr>))"
  by code_simp+

lemma create_negative_baud:
  "serial_initialize arduino_on_com3 (new_SerialHardwareController (Some ''COM3'') (- 5))
     = Inl ValueError"
  "create AUTO (Some ''COM3'') (- 5) arduino_on_com3 5 = Inl ValueError"
  "create ARDUINO (Some ''COM3'') (- 5) arduino_on_com3 5 = Inl ValueError"
  "create AUTO None (- 5) arduino_on_com3 5 = Inl ValueError"
  by code_simp+

text \<open>
  C5, as stated, on a machine whose serial library refuses the configured baud rate -5
  with ValueError: initialize fails, and create in mode AUTO does not fall back to the
  simulated controller, the ValueError escapes.
\<close>

theorem create_auto_escape_counterexample:
  "serial_initialize arduino_on_com3 (new_SerialHardwareController (Some ''COM3'') (- 5))
     = Inl ValueError \<and>
   create AUTO (Some ''COM3'') (- 5) arduino_on_com3 5 = Inl ValueError"
  using create_negative_baud by (intro conjI)

theorem create_fallback_witness:
  "serial_initialize no_ports (new_SerialHardwareController None 9600)
     = Inl (RuntimeError ''Arduino not detected. Ensure device is connected via USB.'') \<and>
   (\<exists>c. create AUTO None 9600 no_ports 5 = Inr c \<and> controller_runtime_mode c = SIMULATION) \<and>
   create ARDUINO None 9600 no_ports 5
     = Inl (RuntimeError ''Arduino not detected. Ensure device is connected via USB.'') \<and>
   (\<exists>c. create AUTO None 9600 busy_port 5 = Inr c \<and> controller_runtime_mode c = SIMULATION) \<and>
   create ARDUINO None 9600 busy_port 0
     = Inl (RuntimeError ''Failed to open serial port COM3: Access is denied.'') \<and>
   create AUTO (Some ''COM3'') (- 5) arduino_on_com3 5 = Inl ValueError \<and>
   create ARDUINO (Some ''COM3'') (- 5) arduino_on_com3 5 = Inl ValueError \<and>
   (\<exists>c. create AUTO None 9600 arduino_on_com3 5 = Inr c \<and> controller_runtime_mode c = ARDUINO)"
proof -
  note t = create_fallback [where w = no_ports and p = None and b = 9600 and now = 5
      and m = "''Arduino not detected. Ensure device is connected via USB.''"]
  have 1: "(\<exists>c. create AUTO None 9600 no_ports 5 = Inr c \<and> controller_runtime_mode c = SIMULATION)"
    and 2: "create ARDUINO None 9600 no_ports 5
     = Inl (RuntimeError ''Arduino not detected. Ensure device is connected via USB.'')"
    using t create_examples(1) by blast+
  note u = create_fallback [where w = arduino_on_com3 and p = "Some ''COM3''" and b = "- 5"
      and now = 5 and e = ValueError]
  have 3: "create AUTO (Some ''COM3'') (- 5) arduino_on_com3 5 = Inl ValueError"
    and 4: "create ARDUINO (Some ''COM3'') (- 5) arduino_on_com3 5 = Inl ValueError"
    using u create_negative_baud(1) by blast+
  have 5: "\<exists>c. create AUTO None 9600 busy_port 5 = Inr c \<and> controller_runtime_mode c = SIMULATION"
    "\<exists>c. create AUTO None 9600 arduino_on_com3 5 = Inr c \<and> controller_runtime_mode c = ARDUINO"
    unfolding create_examples(5,6) by simp_all
  from create_examples(1) 1 2 5(1) create_examples(3) 3 4 5(2) show ?thesis
    by (intro conjI)
qed

section \<open>The telemetry decoder\<close>

subsection \<open>Searching a line field by field\<close>

lemma num_not_space: "is_num c \<Longrightarrow> \<not> is_space c"
  by (auto simp add: is_num_def is_digit_def is_space_def)

lemma digits_are_num: "list_all is_digit v \<Longrightarrow> list_all is_num v"
  by (induction v) (simp_all add: is_num_def)

lemma spaces_num: "list_all is_num v \<Longrightarrow> v \<noteq> [] \<Longrightarrow> spaces (v @ r) = v @ r"
  by (cases v) (simp_all add: spaces_def num_not_space)

lemma group1_hit:
  assumes "list_all cls v" and "v \<noteq> []" and "r = [] \<or> \<not> cls (hd r)"
  shows "group1 cls (v @ r) = Some (v, r)"
proof -
  have r: "takeWhile cls r = []" "dropWhile cls r = r"
    using assms(3) by (cases r; simp)+
  have "takeWhile cls (v @ r) = v" "dropWhile cls (v @ r) = r"
    using assms(1) r by (simp_all add: list_all_iff)
  with assms(2) show ?thesis by (simp add: group1_def)
qed

lemma skip_labelled:
  "list_all is_num v \<Longrightarrow> \<not> is_num l \<Longrightarrow>
   re_search (re_labelled (l # ls) cls sp unit) (v @ r) = re_search (re_labelled (l # ls) cls sp unit) r"
  by (induction v) (auto simp add: re_labelled_def)

lemma skip_words:
  "list_all is_num v \<Longrightarrow> \<not> is_num l \<Longrightarrow>
   re_search (re_words (l # ls) sp ws) (v @ r) = re_search (re_words (l # ls) sp ws) r"
  by (induction v) (auto simp add: re_words_def)

lemma skip_bare_words:
  "list_all is_num v \<Longrightarrow> list_all (\<lambda>w. w \<noteq> [] \<and> \<not> is_num (hd w)) ws \<Longrightarrow>
   re_search (re_words [] False ws) (v @ r) = re_search (re_words [] False ws) r"
proof (induction v)
  case Nil
  then show ?case by simp
next
  case (Cons c v)
  have "alt ws (c # s) = None" if "list_all (\<lambda>w. w \<noteq> [] \<and> \<not> is_num (hd w)) ws" for s
    using that Cons.prems(1)
  proof (induction ws)
    case Nil
    then show ?case by simp
  next
    case (Cons w ws)
    then show ?case by (cases w) auto
  qed
  with Cons show ?case by (simp add: re_words_def)
qed


lemma spaces_simps:
  "spaces [] = []"
  "spaces (c # s) = (if is_space c then spaces s else c # s)"
  by (simp_all add: spaces_def)

lemma spaces_num_all: "list_all is_num v \<Longrightarrow> v \<noteq> [] \<Longrightarrow> spaces v = v"
  using spaces_num [of v "[]"] by simp

lemma group1_all: "list_all cls v \<Longrightarrow> v \<noteq> [] \<Longrightarrow> group1 cls v = Some (v, [])"
  using group1_hit [of cls v "[]"] by simp

lemmas re_defs =
  ldr_re_def garage_re_def motion_re_def rain_re_def water_re_def soil_re_def pump_re_def
  flame_re_def smoke_re_def temp_re_def hum_re_def

lemmas char_class_defs = is_num_def is_digit_def is_space_def

lemmas search_simps =
  render_def re_defs re_labelled_def re_words_def spaces_simps spaces_num spaces_num_all
  group1_hit group1_all skip_labelled skip_words skip_bare_words digits_are_num char_class_defs

lemma search_field_ldr:
  assumes "valid_value k' v" and "boundary r"
  shows "re_search (re_of K_ldr) (render (k', v) @ r)
           = (if k' = K_ldr then Some v else re_search (re_of K_ldr) r)"
  using assms unfolding boundary_def
  by (cases k') (auto simp add: search_simps)

lemma search_field_garage:
  assumes "valid_value k' v" and "boundary r"
  shows "re_search (re_of K_garage) (render (k', v) @ r)
           = (if k' = K_garage then Some v else re_search (re_of K_garage) r)"
  using assms unfolding boundary_def
  by (cases k') (auto simp add: search_simps)

lemma search_field_motion:
  assumes "valid_value k' v" and "boundary r"
  shows "re_search (re_of K_motion) (render (k', v) @ r)
           = (if k' = K_motion then Some v else re_search (re_of K_motion) r)"
  using assms unfolding boundary_def
  by (cases k') (auto simp add: search_simps)

lemma search_field_rain:
  assumes "valid_value k' v" and "boundary r"
  shows "re_search (re_of K_rain) (render (k', v) @ r)
           = (if k' = K_rain then Some v else re_search (re_of K_rain) r)"
  using assms unfolding boundary_def
  by (cases k') (auto simp add: search_simps)

lemma search_field_water:
  assumes "valid_value k' v" and "boundary r"
  shows "re_search (re_of K_water) (render (k', v) @ r)
           = (if k' = K_water then Some v else re_search (re_of K_water) r)"
  using assms unfolding boundary_def
  by (cases k') (auto simp add: search_simps)

lemma search_field_soil:
  assumes "valid_value k' v" and "boundary r"
  shows "re_search (re_of K_soil) (render (k', v) @ r)
           = (if k' = K_soil then Some v else re_search (re_of K_soil) r)"
  using assms unfolding boundary_def
  by (cases k') (auto simp add: search_simps)

lemma search_field_pump:
  assumes "valid_value k' v" and "boundary r"
  shows "re_search (re_of K_pump) (render (k', v) @ r)
           = (if k' = K_pump then Some v else re_search (re_of K_pump) r)"
  using assms unfolding boundary_def
  by (cases k') (auto simp add: search_simps)

lemma search_field_flame:
  assumes "valid_value k' v" and "boundary r"
  shows "re_search (re_of K_flame) (render (k', v) @ r)
           = (if k' = K_flame then Some v else re_search (re_of K_flame) r)"
  using assms unfolding boundary_def
  by (cases k') (auto simp add: search_simps)

lemma search_field_smoke:
  assumes "valid_value k' v" and "boundary r"
  shows "re_search (re_of K_smoke) (render (k', v) @ r)
           = (if k' = K_smoke then Some v else re_search (re_of K_smoke) r)"
  using assms unfolding boundary_def
  by (cases k') (auto simp add: search_simps)

lemma search_field_temp:
  assumes "valid_value k' v" and "boundary r"
  shows "re_search (re_of K_temp) (render (k', v) @ r)
           = (if k' = K_temp then Some v else re_search (re_of K_temp) r)"
  using assms unfolding boundary_def
  by (cases k') (auto simp add: search_simps)

lemma search_field_hum:
  assumes "valid_value k' v" and "boundary r"
  shows "re_search (re_of K_hum) (render (k', v) @ r)
           = (if k' = K_hum then Some v else re_search (re_of K_hum) r)"
  using assms unfolding boundary_def
  by (cases k') (auto simp add: search_simps)

lemma search_field:
  assumes "valid_value k' v" and "boundary r"
  shows "re_search (re_of k) (render (k', v) @ r)
           = (if k' = k then Some v else re_search (re_of k) r)"
  using assms
  by (cases k)
     (simp_all only: search_field_ldr search_field_garage search_field_motion search_field_rain search_field_water search_field_soil search_field_pump search_field_flame search_field_smoke search_field_temp search_field_hum eq_commute [of k'])

lemma search_separator: "re_search (re_of k) ('' | '' @ m) = re_search (re_of k) m"
  by (cases k) (simp_all add: search_simps)

lemma search_empty: "re_of k [] = None"
  by (cases k) (simp_all add: search_simps group1_def)

lemma search_line:
  "list_all (\<lambda>f. valid_value (fst f) (snd f)) fs \<Longrightarrow>
   re_search (re_of k) (line_of fs) = map_of fs k"
proof (induction fs rule: line_of.induct)
  case 1
  show ?case by (simp add: search_empty)
next
  case (2 f)
  then have "valid_value (fst f) (snd f)" by simp
  from search_field [OF this, of "[]" k] show ?case
    by (cases f) (simp add: boundary_def search_empty)
next
  case (3 f g fs)
  then have v: "valid_value (fst f) (snd f)"
    and ih: "re_search (re_of k) (line_of (g # fs)) = map_of (g # fs) k"
    by simp_all
  have b: "boundary ('' | '' @ line_of (g # fs))"
    unfolding boundary_def by blast
  have "re_search (re_of k) (line_of (f # g # fs))
          = re_search (re_of k) (render (fst f, snd f) @ '' | '' @ line_of (g # fs))"
    by simp
  also have "\<dots> = (if fst f = k then Some (snd f)
                   else re_search (re_of k) ('' | '' @ line_of (g # fs)))"
    by (rule search_field [OF v b])
  also have "re_search (re_of k) ('' | '' @ line_of (g # fs))
               = re_search (re_of k) (line_of (g # fs))"
    by (rule search_separator)
  finally show ?case
    unfolding ih by (cases f) auto
qed

lemma valid_fields_perm:
  assumes "valid_fields fs" and "mset fs' = mset fs"
  shows "valid_fields fs'" and "map_of fs' = map_of fs"
proof -
  have s: "set fs' = set fs" using assms(2) by (rule mset_eq_setD)
  have "mset (map fst fs') = mset (map fst fs)" using assms(2) by simp
  then have d: "distinct (map fst fs') = distinct (map fst fs)" by (rule mset_eq_imp_distinct_iff)
  show "valid_fields fs'"
    using assms(1) s d by (simp add: valid_fields_def list_all_iff)
  show "map_of fs' = map_of fs"
    using assms(1) s d by (simp add: valid_fields_def map_of_inject_set)
qed

text \<open>
  C9: decoding does not depend on the order of the fields. For every line in the
  docstring's format (fields with admissible values, no kind twice, separated by
  \<open>" | "\<close>) and every permutation of its fields, written as a line in the same way,
  decoding the permuted line gives the same result as decoding the original line: the
  same snapshot, or in both cases none.
\<close>

theorem parse_telemetry_order_independent:
  assumes "valid_fields fs" and "mset fs' = mset fs"
  shows "parse_telemetry now (line_of fs') = parse_telemetry now (line_of fs)"
proof -
  have v: "list_all (\<lambda>f. valid_value (fst f) (snd f)) fs"
    "list_all (\<lambda>f. valid_value (fst f) (snd f)) fs'"
    using assms valid_fields_perm(1) [OF assms] by (simp_all add: valid_fields_def)
  have "re_search (re_of k) (line_of fs') = re_search (re_of k) (line_of fs)" for k
    using v valid_fields_perm(2) [OF assms] by (simp add: search_line)
  from this [of K_ldr] this [of K_garage] this [of K_motion] this [of K_rain]
    this [of K_water] this [of K_soil] this [of K_pump] this [of K_flame]
    this [of K_smoke] this [of K_temp] this [of K_hum]
  show ?thesis
    by (simp add: parse_telemetry_def)
qed

subsection \<open>What the decoder returns\<close>

lemma py_float_error: "py_float s = Inl e \<Longrightarrow> e = ValueError"
  by (auto simp add: py_float_def Let_def split: list.splits if_splits)

lemma mk_TelemetrySnapshot_error:
  "mk_TelemetrySnapshot ts ldr gd mo ra wl so pu fl sm te hu am rm = Inl e \<Longrightarrow> e = ValueError"
  by (simp add: mk_TelemetrySnapshot_def post_init_def split: if_splits)

lemma mk_TelemetrySnapshot_value:
  "mk_TelemetrySnapshot ts ldr gd mo ra wl so pu fl sm te hu am rm = Inr t \<Longrightarrow>
   t = \<lparr> ts_timestamp = ts, ldr_value = ldr, garage_distance = gd,
         motion_detected = mo, rain_detected = ra, water_level = wl,
         soil_moisture = so, pump_active = pu, flame_detected = fl,
         smoke_level = sm, temperature = te, humidity = hu,
         auto_mode = am, runtime_mode = rm \<rparr>"
  by (simp add: mk_TelemetrySnapshot_def post_init_def split: if_splits)

lemma from_matches_error:
  "from_matches now m1 m2 m3 m4 m5 m6 m7 m8 m9 m10 m11 = Inl e \<Longrightarrow> e = ValueError"
  by (simp add: from_matches_def split: if_splits sum.splits)
     (blast dest: py_float_error mk_TelemetrySnapshot_error)+

lemma parse_telemetry_cases:
  "parse_telemetry now line =
     (case from_matches now
             (re_search ldr_re line) (re_search garage_re line) (re_search motion_re line)
             (re_search rain_re line) (re_search water_re line) (re_search soil_re line)
             (re_search pump_re line) (re_search flame_re line) (re_search smoke_re line)
             (re_search temp_re line) (re_search hum_re line) of
        Inl e \<Rightarrow> Inr None | Inr r \<Rightarrow> Inr r)"
  by (auto simp add: parse_telemetry_def split: sum.splits dest: from_matches_error)

lemma from_matches_missing:
  "m1 = None \<or> m2 = None \<or> m3 = None \<or> m4 = None \<or> m5 = None \<or> m6 = None \<or> m7 = None \<or>
   m8 = None \<or> m9 = None \<or> m10 = None \<or> m11 = None \<Longrightarrow>
   from_matches now m1 m2 m3 m4 m5 m6 m7 m8 m9 m10 m11 = Inr None"
  by (auto simp add: from_matches_def)

lemma from_matches_bad_float:
  "py_float (the m10) = Inl ValueError \<or> py_float (the m11) = Inl ValueError \<Longrightarrow>
   from_matches now m1 m2 m3 m4 m5 m6 m7 m8 m9 m10 m11 = Inr None \<or>
   from_matches now m1 m2 m3 m4 m5 m6 m7 m8 m9 m10 m11 = Inl ValueError"
  by (auto simp add: from_matches_def split: sum.splits dest: py_float_error)

lemma from_matches_some:
  assumes "from_matches now m1 m2 m3 m4 m5 m6 m7 m8 m9 m10 m11 = Inr (Some t)"
  shows "m1 \<noteq> None \<and> m2 \<noteq> None \<and> m3 \<noteq> None \<and> m4 \<noteq> None \<and> m5 \<noteq> None \<and> m6 \<noteq> None \<and>
         m7 \<noteq> None \<and> m8 \<noteq> None \<and> m9 \<noteq> None \<and> m10 \<noteq> None \<and> m11 \<noteq> None \<and>
         (\<exists>te hu. py_float (the m10) = Inr te \<and> py_float (the m11) = Inr hu \<and>
            t = \<lparr> ts_timestamp = now, ldr_value = int_of_digits (the m1),
                  garage_distance = int_of_digits (the m2),
                  motion_detected = (the m3 = ''Motion!''),
                  rain_detected = (the m4 = ''Rain!''),
                  water_level = int_of_digits (the m5),
                  soil_moisture = int_of_digits (the m6),
                  pump_active = (the m7 = ''ON''),
                  flame_detected = (the m8 = ''YES''),
                  smoke_level = int_of_digits (the m9),
                  temperature = te, humidity = hu,
                  auto_mode = True, runtime_mode = ARDUINO \<rparr>)"
proof -
  from assms have all: "m1 \<noteq> None \<and> m2 \<noteq> None \<and> m3 \<noteq> None \<and> m4 \<noteq> None \<and> m5 \<noteq> None \<and>
      m6 \<noteq> None \<and> m7 \<noteq> None \<and> m8 \<noteq> None \<and> m9 \<noteq> None \<and> m10 \<noteq> None \<and> m11 \<noteq> None"
    by (simp add: from_matches_def split: if_splits)
  from assms all obtain te where te: "py_float (the m10) = Inr te"
    by (cases "py_float (the m10)") (simp_all add: from_matches_def)
  from assms all te obtain hu where hu: "py_float (the m11) = Inr hu"
    by (cases "py_float (the m11)") (simp_all add: from_matches_def)
  from assms all te hu have
    "mk_TelemetrySnapshot now (int_of_digits (the m1)) (int_of_digits (the m2))
       (the m3 = ''Motion!'') (the m4 = ''Rain!'') (int_of_digits (the m5))
       (int_of_digits (the m6)) (the m7 = ''ON'') (the m8 = ''YES'')
       (int_of_digits (the m9)) te hu True ARDUINO = Inr t"
    by (simp add: from_matches_def split: sum.splits)
  from mk_TelemetrySnapshot_value [OF this] all te hu show ?thesis by blast
qed

lemma parse_telemetry_some:
  assumes "parse_telemetry now line = Inr (Some t)"
  shows "re_search ldr_re line \<noteq> None \<and> re_search garage_re line \<noteq> None \<and>
      re_search motion_re line \<noteq> None \<and> re_search rain_re line \<noteq> None \<and>
      re_search water_re line \<noteq> None \<and> re_search soil_re line \<noteq> None \<and>
      re_search pump_re line \<noteq> None \<and> re_search flame_re line \<noteq> None \<and>
      re_search smoke_re line \<noteq> None \<and> re_search temp_re line \<noteq> None \<and>
      re_search hum_re line \<noteq> None \<and>
      (\<exists>te hu. py_float (the (re_search temp_re line)) = Inr te \<and>
         py_float (the (re_search hum_re line)) = Inr hu \<and>
         t = \<lparr> ts_timestamp = now,
               ldr_value = int_of_digits (the (re_search ldr_re line)),
               garage_distance = int_of_digits (the (re_search garage_re line)),
               motion_detected = (the (re_search motion_re line) = ''Motion!''),
               rain_detected = (the (re_search rain_re line) = ''Rain!''),
               water_level = int_of_digits (the (re_search water_re line)),
               soil_moisture = int_of_digits (the (re_search soil_re line)),
               pump_active = (the (re_search pump_re line) = ''ON''),
               flame_detected = (the (re_search flame_re line) = ''YES''),
               smoke_level = int_of_digits (the (re_search smoke_re line)),
               temperature = te, humidity = hu,
               auto_mode = True, runtime_mode = ARDUINO \<rparr>)"
proof -
  from assms have "from_matches now
             (re_search ldr_re line) (re_search garage_re line) (re_search motion_re line)
             (re_search rain_re line) (re_search water_re line) (re_search soil_re line)
             (re_search pump_re line) (re_search flame_re line) (re_search smoke_re line)
             (re_search temp_re line) (re_search hum_re line) = Inr (Some t)"
    by (simp add: parse_telemetry_cases split: sum.splits)
  then show ?thesis
    by (rule from_matches_some)
qed

text \<open>
  C4: decoding never raises; when any one of the eleven searches finds nothing, or the
  text found for the temperature or the humidity is not a float, the result is None;
  and when a snapshot is returned, all eleven searches have found their field, both
  floats have parsed, and every field of the snapshot is the value parsed from the text
  found, so no snapshot is partially populated.
\<close>

theorem parse_telemetry_defensive:
  "(\<exists>r. parse_telemetry now line = Inr r) \<and>
   (re_search ldr_re line = None \<or> re_search garage_re line = None \<or>
    re_search motion_re line = None \<or> re_search rain_re line = None \<or>
    re_search water_re line = None \<or> re_search soil_re line = None \<or>
    re_search pump_re line = None \<or> re_search flame_re line = None \<or>
    re_search smoke_re line = None \<or> re_search temp_re line = None \<or>
    re_search hum_re line = None \<or>
    py_float (the (re_search temp_re line)) = Inl ValueError \<or>
    py_float (the (re_search hum_re line)) = Inl ValueError
      \<longrightarrow> parse_telemetry now line = Inr None) \<and>
   (parse_telemetry now line = Inr (Some t) \<longrightarrow>
      re_search ldr_re line \<noteq> None \<and> re_search garage_re line \<noteq> None \<and>
      re_search motion_re line \<noteq> None \<and> re_search rain_re line \<noteq> None \<and>
      re_search water_re line \<noteq> None \<and> re_search soil_re line \<noteq> None \<and>
      re_search pump_re line \<noteq> None \<and> re_search flame_re line \<noteq> None \<and>
      re_search smoke_re line \<noteq> None \<and> re_search temp_re line \<noteq> None \<and>
      re_search hum_re line \<noteq> None \<and>
      (\<exists>te hu. py_float (the (re_search temp_re line)) = Inr te \<and>
         py_float (the (re_search hum_re line)) = Inr hu \<and>
         t = \<lparr> ts_timestamp = now,
               ldr_value = int_of_digits (the (re_search ldr_re line)),
               garage_distance = int_of_digits (the (re_search garage_re line)),
               motion_detected = (the (re_search motion_re line) = ''Motion!''),
               rain_detected = (the (re_search rain_re line) = ''Rain!''),
               water_level = int_of_digits (the (re_search water_re line)),
               soil_moisture = int_of_digits (the (re_search soil_re line)),
               pump_active = (the (re_search pump_re line) = ''ON''),
               flame_detected = (the (re_search flame_re line) = ''YES''),
               smoke_level = int_of_digits (the (re_search smoke_re line)),
               temperature = te, humidity = hu,
               auto_mode = True, runtime_mode = ARDUINO \<rparr>))"
proof -
  let ?f = "from_matches now
             (re_search ldr_re line) (re_search garage_re line) (re_search motion_re line)
             (re_search rain_re line) (re_search water_re line) (re_search soil_re line)
             (re_search pump_re line) (re_search flame_re line) (re_search smoke_re line)
             (re_search temp_re line) (re_search hum_re line)"
  have c1: "\<exists>r. parse_telemetry now line = Inr r"
    by (simp add: parse_telemetry_cases split: sum.splits)
  have c2: "re_search ldr_re line = None \<or> re_search garage_re line = None \<or>
    re_search motion_re line = None \<or> re_search rain_re line = None \<or>
    re_search water_re line = None \<or> re_search soil_re line = None \<or>
    re_search pump_re line = None \<or> re_search flame_re line = None \<or>
    re_search smoke_re line = None \<or> re_search temp_re line = None \<or>
    re_search hum_re line = None \<or>
    py_float (the (re_search temp_re line)) = Inl ValueError \<or>
    py_float (the (re_search hum_re line)) = Inl ValueError
      \<longrightarrow> parse_telemetry now line = Inr None"
  proof
    assume "re_search ldr_re line = None \<or> re_search garage_re line = None \<or>
      re_search motion_re line = None \<or> re_search rain_re line = None \<or>
      re_search water_re line = None \<or> re_search soil_re line = None \<or>
      re_search pump_re line = None \<or> re_search flame_re line = None \<or>
      re_search smoke_re line = None \<or> re_search temp_re line = None \<or>
      re_search hum_re line = None \<or>
      py_float (the (re_search temp_re line)) = Inl ValueError \<or>
      py_float (the (re_search hum_re line)) = Inl ValueError"
    then have "?f = Inr None \<or> ?f = Inl ValueError"
      using from_matches_missing [of "re_search ldr_re line" "re_search garage_re line"
          "re_search motion_re line" "re_search rain_re line" "re_search water_re line"
          "re_search soil_re line" "re_search pump_re line" "re_search flame_re line"
          "re_search smoke_re line" "re_search temp_re line" "re_search hum_re line" now]
        from_matches_bad_float [of "re_search temp_re line" "re_search hum_re line" now
          "re_search ldr_re line" "re_search garage_re line"
          "re_search motion_re line" "re_search rain_re line" "re_search water_re line"
          "re_search soil_re line" "re_search pump_re line" "re_search flame_re line"
          "re_search smoke_re line"]
      by blast
    then show "parse_telemetry now line = Inr None"
      by (auto simp add: parse_telemetry_cases)
  qed
  have c3: "parse_telemetry now line = Inr (Some t) \<longrightarrow>
      re_search ldr_re line \<noteq> None \<and> re_search garage_re line \<noteq> None \<and>
      re_search motion_re line \<noteq> None \<and> re_search rain_re line \<noteq> None \<and>
      re_search water_re line \<noteq> None \<and> re_search soil_re line \<noteq> None \<and>
      re_search pump_re line \<noteq> None \<and> re_search flame_re line \<noteq> None \<and>
      re_search smoke_re line \<noteq> None \<and> re_search temp_re line \<noteq> None \<and>
      re_search hum_re line \<noteq> None \<and>
      (\<exists>te hu. py_float (the (re_search temp_re line)) = Inr te \<and>
         py_float (the (re_search hum_re line)) = Inr hu \<and>
         t = \<lparr> ts_timestamp = now,
               ldr_value = int_of_digits (the (re_search ldr_re line)),
               garage_distance = int_of_digits (the (re_search garage_re line)),
               motion_detected = (the (re_search motion_re line) = ''Motion!''),
               rain_detected = (the (re_search rain_re line) = ''Rain!''),
               water_level = int_of_digits (the (re_search water_re line)),
               soil_moisture = int_of_digits (the (re_search soil_re line)),
               pump_active = (the (re_search pump_re line) = ''ON''),
               flame_detected = (the (re_search flame_re line) = ''YES''),
               smoke_level = int_of_digits (the (re_search smoke_re line)),
               temperature = te, humidity = hu,
               auto_mode = True, runtime_mode = ARDUINO \<rparr>)"
    by (rule impI) (rule parse_telemetry_some)
  show ?thesis
    by (rule conjI [OF c1 conjI [OF c2 c3]])
qed

lemma parse_sample_line: "parse_telemetry 7 sample_line = Inr (Some sample_decoded)"
  by code_simp

lemma parse_shuffled_line: "parse_telemetry 7 shuffled_line = Inr (Some sample_decoded)"
  by code_simp

lemma parse_bad_lines:
  "re_search hum_re no_hum_line = None"
  "parse_telemetry 7 no_hum_line = Inr None"
  "py_float (the (re_search temp_re bad_temp_line)) = Inl ValueError"
  "parse_telemetry 7 bad_temp_line = Inr None"
  by code_simp+

theorem parse_telemetry_defensive_witness:
  "re_search hum_re no_hum_line = None \<and>
   parse_telemetry 7 no_hum_line = Inr None \<and>
   py_float (the (re_search temp_re bad_temp_line)) = Inl ValueError \<and>
   parse_telemetry 7 bad_temp_line = Inr None \<and>
   parse_telemetry 7 sample_line = Inr (Some sample_decoded) \<and>
   re_search hum_re sample_line \<noteq> None"
proof -
  have 1: "parse_telemetry 7 no_hum_line = Inr None"
    using parse_telemetry_defensive [of 7 no_hum_line sample_decoded] parse_bad_lines(1)
    by blast
  have 2: "parse_telemetry 7 bad_temp_line = Inr None"
    using parse_telemetry_defensive [of 7 bad_temp_line sample_decoded] parse_bad_lines(3)
    by blast
  have 3: "re_search hum_re sample_line \<noteq> None"
    using parse_telemetry_defensive [of 7 sample_line sample_decoded] parse_sample_line
    by blast
  from 1 2 3 parse_bad_lines(1,3) parse_sample_line show ?thesis
    by (intro conjI)
qed

text \<open>
  C7: every snapshot the decoder returns has \<open>auto_mode = True\<close>; the decoder takes the
  line alone, so no commanded auto-mode state can reach the field.
\<close>

theorem parse_telemetry_auto_mode:
  "parse_telemetry now line = Inr (Some t) \<Longrightarrow> auto_mode t = True"
proof -
  assume "parse_telemetry now line = Inr (Some t)"
  from parse_telemetry_some [OF this]
  obtain te hu where "t = \<lparr> ts_timestamp = now,
               ldr_value = int_of_digits (the (re_search ldr_re line)),
               garage_distance = int_of_digits (the (re_search garage_re line)),
               motion_detected = (the (re_search motion_re line) = ''Motion!''),
               rain_detected = (the (re_search rain_re line) = ''Rain!''),
               water_level = int_of_digits (the (re_search water_re line)),
               soil_moisture = int_of_digits (the (re_search soil_re line)),
               pump_active = (the (re_search pump_re line) = ''ON''),
               flame_detected = (the (re_search flame_re line) = ''YES''),
               smoke_level = int_of_digits (the (re_search smoke_re line)),
               temperature = te, humidity = hu,
               auto_mode = True, runtime_mode = ARDUINO \<rparr>"
    by blast
  then show "auto_mode t = True" by simp
qed

theorem parse_telemetry_auto_mode_witness:
  "parse_telemetry 7 sample_line = Inr (Some sample_decoded) \<and> auto_mode sample_decoded = True"
  using parse_telemetry_auto_mode [OF parse_sample_line] parse_sample_line by (intro conjI)

lemma sample_fields_lines:
  "line_of sample_fields = sample_line" "line_of shuffled_fields = shuffled_line"
  "valid_fields sample_fields"
  by code_simp+

lemma shuffled_fields_perm: "mset shuffled_fields = mset sample_fields"
  by (simp add: shuffled_fields_def sample_fields_def)

theorem parse_telemetry_order_independent_witness:
  "valid_fields sample_fields \<and> mset shuffled_fields = mset sample_fields \<and>
   parse_telemetry 7 (line_of shuffled_fields) = parse_telemetry 7 (line_of sample_fields) \<and>
   parse_telemetry 7 shuffled_line = Inr (Some sample_decoded)"
  using parse_telemetry_order_independent [OF sample_fields_lines(3) shuffled_fields_perm, of 7]
    sample_fields_lines(3) shuffled_fields_perm parse_shuffled_line
  by (intro conjI)

end
